theory Spec2Isabelle
  imports Main "HOL-Library.Sublist"
begin

section \<open>Function calling notebook: the tool-call round trip\<close>

text \<open>
  The notebook \<^verbatim>\<open>code/02_functions_calling.ipynb\<close> is a sequence of cells run at module
  level. Its state is the namespace of the module (what \<^verbatim>\<open>locals()\<close> returns) and the list
  objects those names refer to. The embedding keeps both: names are bound to objects, list
  objects live in a heap and are reached through references, so that two names bound to
  one list see each other's appends. Every exception of the source is a value of
  \<open>py_error\<close>, returned together with the state in which it was raised.
\<close>

subsection \<open>Values, errors, objects\<close>

text \<open>
  The data the notebook handles: what \<^verbatim>\<open>json.loads\<close> returns and what the two functions
  of the notebook build. A dict is an association list in insertion order. A string is a
  list of characters, each a code point below 256. Of the floating point numbers only
  \<^verbatim>\<open>nan\<close> is kept (\<open>PNaN\<close>), which \<^verbatim>\<open>json.loads\<close> returns for the literal \<^verbatim>\<open>NaN\<close>; the others
  are left out.
\<close>

datatype pyval =
    PNone
  | PBool bool
  | PInt int
  | PNaN
  | PStr string
  | PList "pyval list"
  | PDict "(string \<times> pyval) list"

datatype py_error =
    JSONDecodeError
  | KeyError string
  | TypeError
  | IndexError
  | NameError string
  | AttributeError

text \<open>
  An object bound to a name. A callable is called by the notebook with keyword arguments
  only (\<^verbatim>\<open>f(**function_args)\<close>), so it is a function of the keyword mapping that returns
  a value or raises; callables are pure, as the two functions the notebook defines are.
  A list the notebook appends to is a reference into the heap. Of any other object only
  the fact that it is neither matters.
\<close>

datatype pyobj =
    Callable "(string \<times> pyval) list \<Rightarrow> py_error + pyval"
  | ListRef nat
  | Other

text \<open>
  One element of \<^verbatim>\<open>completion.choices[0].message.tool_calls\<close>: \<^verbatim>\<open>tool.id\<close>,
  \<^verbatim>\<open>tool.function.name\<close> and \<^verbatim>\<open>tool.function.arguments\<close>, three strings.
\<close>

record tool_call =
  tool_id :: string
  function_name :: string
  function_arguments :: string

text \<open>
  The state: the namespace, the heap of list objects, the next free address, and the
  \<^verbatim>\<open>messages=\<close> argument of every chat completion request sent so far, oldest first:
  the contents of the list at the time of the request, or \<open>None\<close> for an argument that is
  not a list.
\<close>

record state =
  names :: "string \<Rightarrow> pyobj option"
  heap :: "nat \<Rightarrow> pyval list"
  next_addr :: nat
  sent :: "pyval list option list"

type_synonym outcome = "py_error option \<times> state"

subsection \<open>The functions the notebook defines\<close>

text \<open>
  \<^verbatim>\<open>
  def message(role, content):
      return {"role": role, "content": [{"type": "text", "text": content}]}
  \<close>
\<close>

definition message :: "pyval \<Rightarrow> pyval \<Rightarrow> pyval" where
  "message role content =
     PDict [(''role'', role),
            (''content'', PList [PDict [(''type'', PStr ''text''), (''text'', content)]])]"

text \<open>
  \<^verbatim>\<open>
  def get_weather(location):
      return {"temperature": 25, "condition": "sunny"}
  \<close>
\<close>

definition get_weather :: "pyval \<Rightarrow> pyval" where
  "get_weather location = PDict [(''temperature'', PInt 25), (''condition'', PStr ''sunny'')]"

text \<open>The list literal of the cell \<^verbatim>\<open>messages = [...]\<close>.\<close>

definition messages :: "pyval list" where
  "messages =
     [message (PStr ''developer'') (PStr ''you are a helpful assistant''),
      message (PStr ''user'') (PStr ''How is the weather in Sydney today?'')]"

text \<open>The tool schema and the list \<^verbatim>\<open>tools\<close> that holds it.\<close>

definition get_weather_function_definition :: pyval where
  "get_weather_function_definition =
     PDict [(''type'', PStr ''function''),
            (''function'',
               PDict [(''name'', PStr ''get_weather''),
                      (''description'', PStr ''Get the current weather in a given city''),
                      (''parameters'',
                         PDict [(''type'', PStr ''object''),
                                (''properties'',
                                   PDict [(''location'',
                                      PDict [(''type'', PStr ''string''),
                                             (''description'',
                                                PStr ''The name of the location to get the weather for'')])]),
                                (''required'', PList [PStr ''location'']),
                                (''additionalProperties'', PBool False)])]),
            (''strict'', PBool True)]"

definition tools :: "pyval list" where
  "tools = [get_weather_function_definition]"

subsection \<open>Calling a function of the notebook with keyword arguments\<close>

text \<open>
  A function defined with \<^verbatim>\<open>def f(p)\<close> or \<^verbatim>\<open>def f(p, q)\<close>, no defaults, called as
  \<^verbatim>\<open>f(**kwargs)\<close>: the call binds the parameters when the keys of the mapping are exactly
  the parameter names and raises TypeError otherwise (a missing or an unexpected keyword).
\<close>

definition bind1 :: "string \<Rightarrow> (pyval \<Rightarrow> pyval) \<Rightarrow> (string \<times> pyval) list \<Rightarrow> py_error + pyval" where
  "bind1 p body kwargs =
     (case kwargs of
        [(k, v)] \<Rightarrow> if k = p then Inr (body v) else Inl TypeError
      | _ \<Rightarrow> Inl TypeError)"

definition bind2 ::
  "string \<Rightarrow> string \<Rightarrow> (pyval \<Rightarrow> pyval \<Rightarrow> pyval) \<Rightarrow> (string \<times> pyval) list \<Rightarrow> py_error + pyval" where
  "bind2 p q body kwargs =
     (if length kwargs = 2 then
        (case (map_of kwargs p, map_of kwargs q) of
           (Some v, Some w) \<Rightarrow> Inr (body v w)
         | _ \<Rightarrow> Inl TypeError)
      else Inl TypeError)"

definition def1 :: "string \<Rightarrow> (pyval \<Rightarrow> pyval) \<Rightarrow> pyobj" where
  "def1 p body = Callable (bind1 p body)"

definition def2 :: "string \<Rightarrow> string \<Rightarrow> (pyval \<Rightarrow> pyval \<Rightarrow> pyval) \<Rightarrow> pyobj" where
  "def2 p q body = Callable (bind2 p q body)"

text \<open>
  \<^verbatim>\<open>obj(**function_args)\<close>: TypeError when the object is not callable or the argument
  after \<^verbatim>\<open>**\<close> is not a mapping.
\<close>

definition call_kw :: "pyobj \<Rightarrow> pyval \<Rightarrow> py_error + pyval" where
  "call_kw obj function_args =
     (case obj of
        Callable f \<Rightarrow>
          (case function_args of PDict kwargs \<Rightarrow> f kwargs | _ \<Rightarrow> Inl TypeError)
      | _ \<Rightarrow> Inl TypeError)"

subsection \<open>Statements on the state\<close>

text \<open>\<^verbatim>\<open>x = <object>\<close> and \<^verbatim>\<open>def x(...)\<close>: bind a name.\<close>

definition assign :: "string \<Rightarrow> pyobj \<Rightarrow> state \<Rightarrow> state" where
  "assign x obj st = st\<lparr>names := (names st)(x \<mapsto> obj)\<rparr>"

text \<open>\<^verbatim>\<open>x = y\<close>: bind \<open>x\<close> to the object \<open>y\<close> is bound to; no object is created.\<close>

definition assign_name :: "string \<Rightarrow> string \<Rightarrow> state \<Rightarrow> outcome" where
  "assign_name x y st =
     (case names st y of
        None \<Rightarrow> (Some (NameError y), st)
      | Some obj \<Rightarrow> (None, assign x obj st))"

text \<open>\<^verbatim>\<open>x = [v1, ..., vn]\<close>: a new list object, and \<open>x\<close> bound to it.\<close>

definition new_list :: "string \<Rightarrow> pyval list \<Rightarrow> state \<Rightarrow> state" where
  "new_list x vs st =
     (let a = next_addr st
      in st\<lparr>names := (names st)(x \<mapsto> ListRef a),
             heap := (heap st)(a := vs),
             next_addr := Suc a\<rparr>)"

text \<open>
  \<^verbatim>\<open>x.append(v)\<close>: the list object \<open>x\<close> refers to grows by one element, in place.
  NameError when \<open>x\<close> is not bound; an object that is not a list has no \<^verbatim>\<open>append\<close>
  (AttributeError). The notebook reaches neither branch.
\<close>

definition list_append :: "string \<Rightarrow> pyval \<Rightarrow> state \<Rightarrow> outcome" where
  "list_append x v st =
     (case names st x of
        None \<Rightarrow> (Some (NameError x), st)
      | Some (ListRef a) \<Rightarrow> (None, st\<lparr>heap := (heap st)(a := heap st a @ [v])\<rparr>)
      | Some _ \<Rightarrow> (Some AttributeError, st))"

text \<open>
  \<^verbatim>\<open>r = await client.chat.completions.create(model=..., messages=x, ...)\<close>: the request
  carries the current contents of the list \<open>x\<close> refers to; the response object is bound
  to \<open>r\<close>. What the model answers is an input of the run, see \<open>notebook\<close>; the call is
  taken to answer (an error of the network or of the API would end the run at the call).
  The client does not check the \<^verbatim>\<open>messages=\<close> argument: an object that is not a list is
  sent as well, and the log keeps \<open>None\<close> for it. The notebook does not reach that branch.
\<close>

definition create :: "string \<Rightarrow> string \<Rightarrow> state \<Rightarrow> outcome" where
  "create r x st =
     (case names st x of
        None \<Rightarrow> (Some (NameError x), st)
      | Some (ListRef a) \<Rightarrow> (None, assign r Other (st\<lparr>sent := sent st @ [Some (heap st a)]\<rparr>))
      | Some _ \<Rightarrow> (None, assign r Other (st\<lparr>sent := sent st @ [None]\<rparr>)))"

text \<open>The list a name refers to, read from the state.\<close>

definition list_of :: "state \<Rightarrow> string \<Rightarrow> pyval list option" where
  "list_of st x = (case names st x of Some (ListRef a) \<Rightarrow> Some (heap st a) | _ \<Rightarrow> None)"

text \<open>Statements in sequence: the first exception ends the run.\<close>

fun run_steps :: "(state \<Rightarrow> outcome) list \<Rightarrow> state \<Rightarrow> outcome" where
  "run_steps [] st = (None, st)"
| "run_steps (c # cs) st =
     (case c st of
        (Some e, st') \<Rightarrow> (Some e, st')
      | (None, st') \<Rightarrow> run_steps cs st')"

subsection \<open>The tool-call execution loop\<close>

text \<open>
  The message the loop builds for a result:
  \<^verbatim>\<open>
  function_call_results_message = {
      "role": "tool",
      "type": "function_call_output",
      "tool_call_id": tool_call_id,
      "content": str(function_call_results)
  }
  \<close>
\<close>

definition function_call_results_message :: "string \<Rightarrow> string \<Rightarrow> pyval" where
  "function_call_results_message tool_call_id content =
     PDict [(''role'', PStr ''tool''),
            (''type'', PStr ''function_call_output''),
            (''tool_call_id'', PStr tool_call_id),
            (''content'', PStr content)]"

text \<open>
  One iteration of \<^verbatim>\<open>for tool in tool_calls:\<close>. The two library functions it calls are
  parameters: \<open>loads\<close> is \<^verbatim>\<open>json.loads\<close> on a string (\<open>None\<close> when \<^verbatim>\<open>json.loads\<close> raises
  JSONDecodeError; a text nested so deeply that it raises RecursionError instead is left
  out), \<open>str\<close> is \<^verbatim>\<open>str\<close>.
  \<^verbatim>\<open>
      function_name = tool.function.name
      function_args = json.loads(tool.function.arguments)
      tool_call_id = tool.id
      function_call_results = locals()[function_name](**function_args)
      function_call_results_message = {...}
      chat_history.append(function_call_results_message)
  \<close>
  The loop's own variables are names of the module too, so \<^verbatim>\<open>locals()\<close> holds them when
  the function is looked up. The \<^verbatim>\<open>print\<close> calls do not change the state.
\<close>

definition exec_tool ::
  "(string \<Rightarrow> pyval option) \<Rightarrow> (pyval \<Rightarrow> string) \<Rightarrow> tool_call \<Rightarrow> state \<Rightarrow> outcome" where
  "exec_tool loads str tool st =
     (let st1 = assign ''function_name'' Other (assign ''tool'' Other st)
      in case loads (function_arguments tool) of
           None \<Rightarrow> (Some JSONDecodeError, st1)
         | Some function_args \<Rightarrow>
            (let st2 = assign ''tool_call_id'' Other (assign ''function_args'' Other st1)
             in case names st2 (function_name tool) of
                  None \<Rightarrow> (Some (KeyError (function_name tool)), st2)
                | Some f \<Rightarrow>
                   (case call_kw f function_args of
                      Inl e \<Rightarrow> (Some e, st2)
                    | Inr function_call_results \<Rightarrow>
                       list_append ''chat_history''
                         (function_call_results_message (tool_id tool) (str function_call_results))
                         (assign ''function_call_results_message'' Other
                            (assign ''function_call_results'' Other st2)))))"

fun exec_tool_calls ::
  "(string \<Rightarrow> pyval option) \<Rightarrow> (pyval \<Rightarrow> string) \<Rightarrow> tool_call list \<Rightarrow> state \<Rightarrow> outcome" where
  "exec_tool_calls loads str [] st = (None, st)"
| "exec_tool_calls loads str (tool # rest) st =
     (case exec_tool loads str tool st of
        (Some e, st') \<Rightarrow> (Some e, st')
      | (None, st') \<Rightarrow> exec_tool_calls loads str rest st')"

text \<open>
  The namespace \<^verbatim>\<open>locals()\<close> at the line that looks the function up: the names bound
  before the iteration and the four variables the iteration has assigned by then.
\<close>

definition locals_at_dispatch :: "state \<Rightarrow> string \<Rightarrow> pyobj option" where
  "locals_at_dispatch st =
     names (assign ''tool_call_id'' Other (assign ''function_args'' Other
             (assign ''function_name'' Other (assign ''tool'' Other st))))"

subsection \<open>The cells of the notebook, in order\<close>

text \<open>
  The cells that define the functions and the data:
  \<^verbatim>\<open>
  def message(role, content): ...
  messages = [message("developer", ...), message("user", ...)]
  completion = await client.chat.completions.create(model=..., messages=messages)
  get_weather_function_definition = {...}
  tools = [get_weather_function_definition]
  def get_weather(location): ...
  \<close>
  The cell of imports before them binds names of libraries; those are whatever the
  state the run starts from holds.
\<close>

definition setup_cells :: "(state \<Rightarrow> outcome) list" where
  "setup_cells =
     [\<lambda>st. (None, assign ''message'' (def2 ''role'' ''content'' message) st),
      \<lambda>st. (None, new_list ''messages'' messages st),
      create ''completion'' ''messages'',
      \<lambda>st. (None, new_list ''tools'' tools (assign ''get_weather_function_definition'' Other st)),
      \<lambda>st. (None, assign ''get_weather'' (def1 ''location'' get_weather) st)]"

text \<open>
  Sending the prompt with the tools and recording the model's message:
  \<^verbatim>\<open>
  chat_history = messages
  completion = await client.chat.completions.create(..., messages=chat_history, tools=tools)
  chat_history.append(json.loads(completion.choices[0].message.to_json()))
  \<close>
  \<open>assistant_1\<close> is the decoded message of the model's first response.
\<close>

definition send_cells :: "pyval \<Rightarrow> (state \<Rightarrow> outcome) list" where
  "send_cells assistant_1 =
     [assign_name ''chat_history'' ''messages'',
      create ''completion'' ''chat_history'',
      list_append ''chat_history'' assistant_1]"

text \<open>
  \<^verbatim>\<open>
  finish_reason = completion.choices[0].finish_reason
  tool_calls = completion.choices[0].message.tool_calls
  print(tool_calls[0].to_json())
  \<close>
  \<open>tool_calls\<close> is \<open>None\<close> when the model answered in text; subscripting \<^verbatim>\<open>None\<close>
  raises TypeError, subscripting an empty list IndexError.
\<close>

definition inspect_tool_calls :: "tool_call list option \<Rightarrow> state \<Rightarrow> outcome" where
  "inspect_tool_calls tool_calls st =
     (let st1 = assign ''tool_calls'' Other (assign ''finish_reason'' Other st)
      in case tool_calls of
           None \<Rightarrow> (Some TypeError, st1)
         | Some [] \<Rightarrow> (Some IndexError, st1)
         | Some (tool # rest) \<Rightarrow> (None, st1))"

text \<open>\<^verbatim>\<open>for tool in tool_calls: ...\<close>; iterating over \<^verbatim>\<open>None\<close> raises TypeError.\<close>

definition for_tool_calls ::
  "(string \<Rightarrow> pyval option) \<Rightarrow> (pyval \<Rightarrow> string) \<Rightarrow> tool_call list option \<Rightarrow> state \<Rightarrow> outcome" where
  "for_tool_calls loads str tool_calls st =
     (case tool_calls of
        None \<Rightarrow> (Some TypeError, st)
      | Some tcs \<Rightarrow> exec_tool_calls loads str tcs st)"

definition tool_cells ::
  "(string \<Rightarrow> pyval option) \<Rightarrow> (pyval \<Rightarrow> string) \<Rightarrow> tool_call list option \<Rightarrow> (state \<Rightarrow> outcome) list" where
  "tool_cells loads str tool_calls =
     [inspect_tool_calls tool_calls, for_tool_calls loads str tool_calls]"

text \<open>
  Sending the results back and continuing the conversation:
  \<^verbatim>\<open>
  response_2 = await client.chat.completions.create(..., messages=chat_history, tools=tools)
  chat_history.append(json.loads(response_2.choices[0].message.to_json()))
  chat_history.append(message("user", "what again in Arabic please?"))
  response_3 = await client.chat.completions.create(..., messages=chat_history, tools=tools)
  \<close>
  \<open>assistant_2\<close> is the decoded message of the model's second response.
\<close>

definition follow_up :: pyval where
  "follow_up = message (PStr ''user'') (PStr ''what again in Arabic please?'')"

definition answer_cells :: "pyval \<Rightarrow> (state \<Rightarrow> outcome) list" where
  "answer_cells assistant_2 =
     [create ''response_2'' ''chat_history'',
      list_append ''chat_history'' assistant_2,
      list_append ''chat_history'' follow_up,
      create ''response_3'' ''chat_history'']"

text \<open>The round trip, from \<^verbatim>\<open>chat_history = messages\<close> on, and the whole notebook.\<close>

definition round_trip_cells ::
  "(string \<Rightarrow> pyval option) \<Rightarrow> (pyval \<Rightarrow> string) \<Rightarrow> pyval \<Rightarrow> tool_call list option \<Rightarrow> pyval
     \<Rightarrow> (state \<Rightarrow> outcome) list" where
  "round_trip_cells loads str assistant_1 tool_calls assistant_2 =
     send_cells assistant_1 @ tool_cells loads str tool_calls @ answer_cells assistant_2"

definition round_trip ::
  "(string \<Rightarrow> pyval option) \<Rightarrow> (pyval \<Rightarrow> string) \<Rightarrow> pyval \<Rightarrow> tool_call list option \<Rightarrow> pyval
     \<Rightarrow> state \<Rightarrow> outcome" where
  "round_trip loads str assistant_1 tool_calls assistant_2 =
     run_steps (round_trip_cells loads str assistant_1 tool_calls assistant_2)"

definition notebook ::
  "(string \<Rightarrow> pyval option) \<Rightarrow> (pyval \<Rightarrow> string) \<Rightarrow> pyval \<Rightarrow> tool_call list option \<Rightarrow> pyval
     \<Rightarrow> state \<Rightarrow> outcome" where
  "notebook loads str assistant_1 tool_calls assistant_2 =
     run_steps (setup_cells @ round_trip_cells loads str assistant_1 tool_calls assistant_2)"

subsection \<open>Reading messages\<close>

text \<open>The keys of a dict in insertion order, and \<^verbatim>\<open>d.get(k)\<close>.\<close>

fun keys :: "pyval \<Rightarrow> string list" where
  "keys (PDict kvs) = map fst kvs"
| "keys _ = []"

fun get :: "pyval \<Rightarrow> string \<Rightarrow> pyval option" where
  "get (PDict kvs) k = map_of kvs k"
| "get _ k = None"

fun text_or_null :: "pyval \<Rightarrow> bool" where
  "text_or_null PNone = True"
| "text_or_null (PStr s) = True"
| "text_or_null _ = False"

text \<open>A content that is one text part: \<^verbatim>\<open>[{"type": "text", "text": c}]\<close>.\<close>

fun text_part_of :: "pyval \<Rightarrow> pyval option" where
  "text_part_of (PList [PDict [(k1, PStr t), (k2, c)]]) =
     (if k1 = ''type'' \<and> t = ''text'' \<and> k2 = ''text'' then Some c else None)"
| "text_part_of _ = None"

text \<open>The two shapes of message the notebook builds itself.\<close>

definition prompt_shape :: "pyval \<Rightarrow> bool" where
  "prompt_shape m \<longleftrightarrow>
     keys m = [''role'', ''content'']
     \<and> (get m ''role'' = Some (PStr ''developer'') \<or> get m ''role'' = Some (PStr ''user''))
     \<and> (case get m ''content'' of
          Some c \<Rightarrow> (case text_part_of c of Some (PStr s) \<Rightarrow> True | _ \<Rightarrow> False)
        | None \<Rightarrow> False)"

definition tool_result_shape :: "pyval \<Rightarrow> bool" where
  "tool_result_shape m \<longleftrightarrow>
     keys m = [''role'', ''type'', ''tool_call_id'', ''content'']
     \<and> get m ''role'' = Some (PStr ''tool'')
     \<and> get m ''type'' = Some (PStr ''function_call_output'')
     \<and> (case get m ''tool_call_id'' of Some (PStr i) \<Rightarrow> True | _ \<Rightarrow> False)
     \<and> (case get m ''content'' of Some (PStr c) \<Rightarrow> True | _ \<Rightarrow> False)"

text \<open>The messages of a history that answer the request with a given correlation id.\<close>

definition answers :: "string \<Rightarrow> pyval list \<Rightarrow> pyval list" where
  "answers i h =
     filter (\<lambda>m. get m ''role'' = Some (PStr ''tool'') \<and> get m ''tool_call_id'' = Some (PStr i)) h"

subsection \<open>Valid JSON\<close>

text \<open>
  What the spec calls valid JSON: the grammar of RFC 8259, as a recognizer on the
  characters of a text. Each function reads one construct at the head of its argument and
  returns what follows it, or \<open>None\<close> when the construct is not there: \<open>json_string\<close> a
  string after its opening quote, \<open>json_number\<close> a number, \<open>json_literal\<close> one of
  \<^verbatim>\<open>true\<close>, \<^verbatim>\<open>false\<close>, \<^verbatim>\<open>null\<close>, \<open>json_value\<close> a value, \<open>json_elements\<close> the elements of an
  array up to its closing bracket, \<open>json_members\<close> the members of an object up to its
  closing brace. The first argument of the last three bounds the recursion; \<open>valid_json\<close>
  gives it one more than the length of the text. A text is valid when it is one value
  between optional white space.
\<close>

definition is_ws :: "char \<Rightarrow> bool" where
  "is_ws c \<longleftrightarrow> c = CHR '' '' \<or> c = CHR 0x09 \<or> c = CHR 0x0A \<or> c = CHR 0x0D"

definition skip_ws :: "string \<Rightarrow> string" where
  "skip_ws s = dropWhile is_ws s"

definition is_digit :: "char \<Rightarrow> bool" where
  "is_digit c \<longleftrightarrow> c \<in> set ''0123456789''"

definition is_hex :: "char \<Rightarrow> bool" where
  "is_hex c \<longleftrightarrow> c \<in> set ''0123456789abcdefABCDEF''"

fun json_string :: "string \<Rightarrow> string option" where
  "json_string [] = None"
| "json_string (c # cs) =
     (if c = CHR 0x22 then Some cs
      else if c = CHR 0x5C then
        (case cs of
           [] \<Rightarrow> None
         | e # r \<Rightarrow>
            if e \<in> set [CHR 0x22, CHR 0x5C, CHR ''/'', CHR ''b'', CHR ''f'', CHR ''n'', CHR ''r'', CHR ''t'']
            then json_string r
            else if e = CHR ''u'' \<and> 4 \<le> length r \<and> list_all is_hex (take 4 r)
            then json_string (drop 4 r)
            else None)
      else if of_char c < (32 :: nat) then None
      else json_string cs)"

definition json_int :: "string \<Rightarrow> string option" where
  "json_int s =
     (case (case s of [] \<Rightarrow> [] | c # r \<Rightarrow> if c = CHR ''-'' then r else s) of
        [] \<Rightarrow> None
      | d # r \<Rightarrow>
         if d = CHR ''0'' then Some r
         else if is_digit d then Some (dropWhile is_digit r)
         else None)"

definition json_frac :: "string \<Rightarrow> string option" where
  "json_frac s =
     (case s of
        [] \<Rightarrow> Some []
      | c # f \<Rightarrow>
         if c = CHR ''.'' then
           (case f of
              [] \<Rightarrow> None
            | d # f' \<Rightarrow> if is_digit d then Some (dropWhile is_digit f') else None)
         else Some s)"

definition json_exp :: "string \<Rightarrow> string option" where
  "json_exp s =
     (case s of
        [] \<Rightarrow> Some []
      | c # x \<Rightarrow>
         if c = CHR ''e'' \<or> c = CHR ''E'' then
           (case (case x of [] \<Rightarrow> [] | g # y \<Rightarrow> if g = CHR ''+'' \<or> g = CHR ''-'' then y else x) of
              [] \<Rightarrow> None
            | d # y \<Rightarrow> if is_digit d then Some (dropWhile is_digit y) else None)
         else Some s)"

definition json_number :: "string \<Rightarrow> string option" where
  "json_number s =
     (case json_int s of
        None \<Rightarrow> None
      | Some r \<Rightarrow> (case json_frac r of None \<Rightarrow> None | Some r' \<Rightarrow> json_exp r'))"

definition json_literal :: "string \<Rightarrow> string option" where
  "json_literal s =
     (if prefix ''true'' s then Some (drop 4 s)
      else if prefix ''false'' s then Some (drop 5 s)
      else if prefix ''null'' s then Some (drop 4 s)
      else None)"

fun json_value :: "nat \<Rightarrow> string \<Rightarrow> string option"
and json_elements :: "nat \<Rightarrow> string \<Rightarrow> string option"
and json_members :: "nat \<Rightarrow> string \<Rightarrow> string option" where
  "json_value 0 s = None"
| "json_value (Suc n) s =
     (case s of
        [] \<Rightarrow> None
      | c # r \<Rightarrow>
         if c = CHR ''{'' then
           (case skip_ws r of
              [] \<Rightarrow> None
            | d # r' \<Rightarrow> if d = CHR ''}'' then Some r' else json_members n (d # r'))
         else if c = CHR ''['' then
           (case skip_ws r of
              [] \<Rightarrow> None
            | d # r' \<Rightarrow> if d = CHR '']'' then Some r' else json_elements n (d # r'))
         else if c = CHR 0x22 then json_string r
         else if c = CHR ''t'' \<or> c = CHR ''f'' \<or> c = CHR ''n'' then json_literal s
         else json_number s)"
| "json_elements 0 s = None"
| "json_elements (Suc n) s =
     (case json_value n s of
        None \<Rightarrow> None
      | Some r \<Rightarrow>
         (case skip_ws r of
            [] \<Rightarrow> None
          | c # r' \<Rightarrow>
             if c = CHR '','' then json_elements n (skip_ws r')
             else if c = CHR '']'' then Some r'
             else None))"
| "json_members 0 s = None"
| "json_members (Suc n) s =
     (case s of
        [] \<Rightarrow> None
      | q # k \<Rightarrow>
         if q = CHR 0x22 then
           (case json_string k of
              None \<Rightarrow> None
            | Some r \<Rightarrow>
               (case skip_ws r of
                  [] \<Rightarrow> None
                | c # r' \<Rightarrow>
                   if c = CHR '':'' then
                     (case json_value n (skip_ws r') of
                        None \<Rightarrow> None
                      | Some r'' \<Rightarrow>
                         (case skip_ws r'' of
                            [] \<Rightarrow> None
                          | d # r''' \<Rightarrow>
                             if d = CHR '','' then json_members n (skip_ws r''')
                             else if d = CHR ''}'' then Some r'''
                             else None))
                   else None))
         else None)"

definition valid_json :: "string \<Rightarrow> bool" where
  "valid_json s =
     (case json_value (Suc (length s)) (skip_ws s) of
        None \<Rightarrow> False
      | Some r \<Rightarrow> skip_ws r = [])"

subsection \<open>A model of \<^verbatim>\<open>str\<close> and sample inputs\<close>

text \<open>
  Python's \<^verbatim>\<open>str\<close> on the values of \<open>pyval\<close>: a string is itself, anything else is its
  \<^verbatim>\<open>repr\<close>. The \<^verbatim>\<open>repr\<close> of a string is quoted with \<^verbatim>\<open>'\<close>, or with \<^verbatim>\<open>"\<close> when the string
  holds a \<^verbatim>\<open>'\<close> and no \<^verbatim>\<open>"\<close>; the quote and the backslash are escaped; the characters
  that are not printable (below 0x20, from 0x7f to 0xa0, and 0xad) are written \<^verbatim>\<open>\n\<close>,
  \<^verbatim>\<open>\r\<close>, \<^verbatim>\<open>\t\<close> or \<^verbatim>\<open>\xhh\<close>; the other characters are copied. It instantiates the
  parameter \<open>str\<close> in the examples; the general statements hold for every \<open>str\<close>.
\<close>

fun show_nat :: "nat \<Rightarrow> string" where
  "show_nat n =
     (if n < 10 then [''0123456789'' ! n]
      else show_nat (n div 10) @ [''0123456789'' ! (n mod 10)])"

declare show_nat.simps [simp del]

definition show_int :: "int \<Rightarrow> string" where
  "show_int i = (if i < 0 then CHR ''-'' # show_nat (nat (- i)) else show_nat (nat i))"

definition escape_char :: "char \<Rightarrow> char \<Rightarrow> string" where
  "escape_char q c =
     (if c = q \<or> c = CHR 0x5C then [CHR 0x5C, c]
      else if c = CHR 0x0A then [CHR 0x5C, CHR ''n'']
      else if c = CHR 0x0D then [CHR 0x5C, CHR ''r'']
      else if c = CHR 0x09 then [CHR 0x5C, CHR ''t'']
      else if of_char c < (32 :: nat) \<or> (127 \<le> (of_char c :: nat) \<and> (of_char c :: nat) \<le> 160)
              \<or> c = CHR 0xAD then
        [CHR 0x5C, CHR ''x'', ''0123456789abcdef'' ! (of_char c div 16),
         ''0123456789abcdef'' ! (of_char c mod 16)]
      else [c])"

definition repr_str :: "string \<Rightarrow> string" where
  "repr_str s =
     (let q = (if CHR 0x27 \<in> set s \<and> CHR 0x22 \<notin> set s then CHR 0x22 else CHR 0x27)
      in q # concat (map (escape_char q) s) @ [q])"

fun join :: "string \<Rightarrow> string list \<Rightarrow> string" where
  "join sep [] = []"
| "join sep [x] = x"
| "join sep (x # y # ys) = x @ sep @ join sep (y # ys)"

fun py_repr :: "pyval \<Rightarrow> string" where
  "py_repr PNone = ''None''"
| "py_repr (PBool b) = (if b then ''True'' else ''False'')"
| "py_repr (PInt i) = show_int i"
| "py_repr PNaN = ''nan''"
| "py_repr (PStr s) = repr_str s"
| "py_repr (PList vs) = ''['' @ join '', '' (map py_repr vs) @ '']''"
| "py_repr (PDict kvs) =
     ''{'' @ join '', '' (map (\<lambda>(k, v). repr_str k @ '': '' @ py_repr v) kvs) @ ''}''"

definition py_str :: "pyval \<Rightarrow> string" where
  "py_str v = (case v of PStr s \<Rightarrow> s | _ \<Rightarrow> py_repr v)"

text \<open>
  \<^verbatim>\<open>json.loads\<close> at the argument strings of the examples: the string the model sent in the
  recorded run, the same object with another key, a JSON array, and an object with the
  literal \<^verbatim>\<open>NaN\<close>, which \<^verbatim>\<open>json.loads\<close> accepts and decodes to the float \<^verbatim>\<open>nan\<close>. Every
  other string is taken as invalid; the examples use the truncated text \<^verbatim>\<open>{"location":\<close>
  as such. It instantiates the parameter \<open>loads\<close> in the examples; the general statements
  hold for every \<open>loads\<close>.
\<close>

definition loads_sample :: "string \<Rightarrow> pyval option" where
  \<open>loads_sample s =
     (if s = ''{"location":"Sydney"}'' then Some (PDict [(''location'', PStr ''Sydney'')])
      else if s = ''{"city":"Sydney"}'' then Some (PDict [(''city'', PStr ''Sydney'')])
      else if s = ''["Sydney"]'' then Some (PList [PStr ''Sydney''])
      else if s = ''{"location": NaN}'' then Some (PDict [(''location'', PNaN)])
      else None)\<close>

text \<open>The tool call and the two assistant messages of the run the notebook records.\<close>

definition recorded_tool_call :: tool_call where
  \<open>recorded_tool_call =
     \<lparr>tool_id = ''call_A0GbXBeZGkAR1ooDoMKQCPcs'',
      function_name = ''get_weather'',
      function_arguments = ''{"location":"Sydney"}''\<rparr>\<close>

definition recorded_assistant_1 :: pyval where
  \<open>recorded_assistant_1 =
     PDict [(''content'', PNone),
            (''refusal'', PNone),
            (''role'', PStr ''assistant''),
            (''tool_calls'',
               PList [PDict [(''id'', PStr ''call_A0GbXBeZGkAR1ooDoMKQCPcs''),
                             (''function'',
                                PDict [(''arguments'', PStr ''{"location":"Sydney"}''),
                                       (''name'', PStr ''get_weather'')]),
                             (''type'', PStr ''function'')]])]\<close>

definition recorded_assistant_2 :: pyval where
  "recorded_assistant_2 =
     PDict [(''content'',
               PStr (''The weather in Sydney today is sunny with a temperature of 25''
                     @ [CHR 0xB0] @ ''C.'')),
            (''refusal'', PNone),
            (''role'', PStr ''assistant'')]"

text \<open>
  More requests: the recorded one with another key, one whose arguments are cut off, one
  for a function the notebook does not define, one whose arguments are a JSON array, and
  one whose arguments hold the literal \<^verbatim>\<open>NaN\<close>.
\<close>

definition city_tool_call :: tool_call where
  \<open>city_tool_call =
     \<lparr>tool_id = ''call_1'', function_name = ''get_weather'',
      function_arguments = ''{"city":"Sydney"}''\<rparr>\<close>

definition truncated_tool_call :: tool_call where
  \<open>truncated_tool_call =
     \<lparr>tool_id = ''call_2'', function_name = ''get_weather'',
      function_arguments = ''{"location":''\<rparr>\<close>

definition unknown_tool_call :: tool_call where
  \<open>unknown_tool_call =
     \<lparr>tool_id = ''call_3'', function_name = ''get_time'',
      function_arguments = ''{"location":"Sydney"}''\<rparr>\<close>

definition array_tool_call :: tool_call where
  \<open>array_tool_call =
     \<lparr>tool_id = ''call_4'', function_name = ''get_weather'',
      function_arguments = ''["Sydney"]''\<rparr>\<close>

definition nan_tool_call :: tool_call where
  \<open>nan_tool_call =
     \<lparr>tool_id = ''call_5'', function_name = ''get_weather'',
      function_arguments = ''{"location": NaN}''\<rparr>\<close>

text \<open>
  A state with no name bound; the state after the defining cells; the state in which the
  recorded run enters the loop; the state after the loop has served the recorded request;
  and the recorded run as a whole.
\<close>

definition empty_state :: state where
  "empty_state = \<lparr>names = (\<lambda>x. None), heap = (\<lambda>a. []), next_addr = 0, sent = []\<rparr>"

definition setup_state :: state where
  "setup_state = snd (run_steps setup_cells empty_state)"

definition loop_state :: state where
  "loop_state =
     snd (run_steps (setup_cells @ send_cells recorded_assistant_1
                     @ [inspect_tool_calls (Some [recorded_tool_call])]) empty_state)"

definition after_recorded_call :: state where
  "after_recorded_call = snd (exec_tool_calls loads_sample py_str [recorded_tool_call] loop_state)"

definition recorded_run :: outcome where
  "recorded_run =
     notebook loads_sample py_str recorded_assistant_1 (Some [recorded_tool_call])
       recorded_assistant_2 empty_state"

subsection \<open>What one iteration computes\<close>

text \<open>
  The value path of one iteration, without the state: decode the arguments, look the
  name up in a namespace \<open>ns\<close>, call. \<open>exec_tool\<close> raises what this raises and appends the
  message built from what this returns (lemmas \<open>exec_tool_Inl\<close> and \<open>exec_tool_Inr\<close>).
\<close>

definition call_result ::
  "(string \<Rightarrow> pyval option) \<Rightarrow> (string \<Rightarrow> pyobj option) \<Rightarrow> tool_call \<Rightarrow> py_error + pyval" where
  "call_result loads ns tool =
     (case loads (function_arguments tool) of
        None \<Rightarrow> Inl JSONDecodeError
      | Some function_args \<Rightarrow>
         (case ns (function_name tool) of
            None \<Rightarrow> Inl (KeyError (function_name tool))
          | Some f \<Rightarrow> call_kw f function_args))"

text \<open>The messages the loop builds for requests \<open>tcs\<close> whose calls returned \<open>rs\<close>.\<close>

definition loop_messages :: "(pyval \<Rightarrow> string) \<Rightarrow> tool_call list \<Rightarrow> pyval list \<Rightarrow> pyval list" where
  "loop_messages str tcs rs =
     map (\<lambda>(tc, res). function_call_results_message (tool_id tc) (str res)) (zip tcs rs)"

text \<open>
  Two properties of a statement: it changes no list object other than by extending it,
  and it leaves the name \<^verbatim>\<open>chat_history\<close> bound to what it was bound to.
\<close>

definition appends_only :: "(state \<Rightarrow> outcome) \<Rightarrow> bool" where
  "appends_only c \<longleftrightarrow> (\<forall>st b. prefix (heap st b) (heap (snd (c st)) b))"

definition keeps_history_name :: "(state \<Rightarrow> outcome) \<Rightarrow> bool" where
  "keeps_history_name c \<longleftrightarrow>
     (\<forall>st. names (snd (c st)) ''chat_history'' = names st ''chat_history'')"

section \<open>Properties\<close>

subsection \<open>One iteration of the loop\<close>

lemma assign_simps [simp]:
  "names (assign x obj st) = (names st)(x \<mapsto> obj)"
  "heap (assign x obj st) = heap st"
  "sent (assign x obj st) = sent st"
  "next_addr (assign x obj st) = next_addr st"
  by (simp_all add: assign_def)

lemma exec_tool_Inl:
  assumes "call_result loads (locals_at_dispatch st) tool = Inl e"
  shows "\<exists>st'. exec_tool loads str tool st = (Some e, st') \<and> heap st' = heap st
           \<and> sent st' = sent st \<and> next_addr st' = next_addr st
           \<and> (\<forall>n. names st' n = names st n \<or> names st' n = Some Other)
           \<and> names st' ''chat_history'' = names st ''chat_history''
           \<and> names st' ''messages'' = names st ''messages''"
  using assms
  by (auto simp: exec_tool_def call_result_def locals_at_dispatch_def Let_def
           split: option.splits sum.splits)

lemma exec_tool_Inr:
  assumes "call_result loads (locals_at_dispatch st) tool = Inr res"
      and "names st ''chat_history'' = Some (ListRef a)"
  shows "\<exists>st'. exec_tool loads str tool st = (None, st')
           \<and> heap st' = (heap st)(a := heap st a @ [function_call_results_message (tool_id tool) (str res)])
           \<and> sent st' = sent st \<and> next_addr st' = next_addr st
           \<and> (\<forall>n. names st' n = names st n \<or> names st' n = Some Other)
           \<and> names st' ''chat_history'' = Some (ListRef a)
           \<and> names st' ''messages'' = names st ''messages''"
  using assms
  by (auto simp: exec_tool_def call_result_def locals_at_dispatch_def Let_def list_append_def
           split: option.splits sum.splits)

lemma call_result_Inr_iff:
  "call_result loads ns tool = Inr res \<longleftrightarrow>
     (\<exists>f kwargs. ns (function_name tool) = Some (Callable f)
        \<and> loads (function_arguments tool) = Some (PDict kwargs) \<and> f kwargs = Inr res)"
  by (auto simp: call_result_def call_kw_def split: option.splits pyobj.splits pyval.splits)

text \<open>
  The notebook rebinds names during the round trip to objects that are not callable
  only, so a call that returns is a call of a function bound before.
\<close>

lemma call_result_mono:
  assumes "\<And>n f. ns' n = Some (Callable f) \<Longrightarrow> ns n = Some (Callable f)"
      and "call_result loads ns' tool = Inr res"
  shows "call_result loads ns tool = Inr res"
  using assms unfolding call_result_Inr_iff by blast

lemma locals_at_dispatch_le:
  "locals_at_dispatch st n = names st n \<or> locals_at_dispatch st n = Some Other"
  by (simp add: locals_at_dispatch_def)

lemma locals_at_dispatch_callable:
  "locals_at_dispatch st n = Some (Callable f) \<Longrightarrow> names st n = Some (Callable f)"
  using locals_at_dispatch_le [of st n] by auto

lemma list_of_cong:
  "names st' x = names st x \<Longrightarrow> heap st' = heap st \<Longrightarrow> list_of st' x = list_of st x"
  by (simp add: list_of_def split: option.splits pyobj.splits)

subsection \<open>The loop\<close>

lemma loop_messages_simps [simp]:
  "loop_messages str tcs [] = []"
  "loop_messages str (tc # tcs) (res # rs) =
     function_call_results_message (tool_id tc) (str res) # loop_messages str tcs rs"
  by (simp_all add: loop_messages_def)

lemma length_loop_messages [simp]:
  "length (loop_messages str tcs rs) = min (length tcs) (length rs)"
  by (simp add: loop_messages_def)

lemma loop_messages_nth:
  "i < length rs \<Longrightarrow> length rs \<le> length tcs \<Longrightarrow>
     loop_messages str tcs rs ! i = function_call_results_message (tool_id (tcs ! i)) (str (rs ! i))"
  by (simp add: loop_messages_def)

text \<open>
  Whatever the outcome, the loop has appended the messages of the calls that returned,
  in the order of the requests, to the list \<^verbatim>\<open>chat_history\<close> refers to, and has changed
  nothing else of the heap; it ends without an exception exactly when every call returned.
\<close>

lemma exec_tool_calls_char:
  assumes "names st ''chat_history'' = Some (ListRef a)"
      and "exec_tool_calls loads str tcs st = (r, st')"
  shows "\<exists>rs. length rs \<le> length tcs
           \<and> (r = None \<longleftrightarrow> length rs = length tcs)
           \<and> heap st' = (heap st)(a := heap st a @ loop_messages str tcs rs)
           \<and> (\<forall>i<length rs. call_result loads (names st) (tcs ! i) = Inr (rs ! i))
           \<and> sent st' = sent st \<and> next_addr st' = next_addr st
           \<and> (\<forall>n f. names st' n = Some (Callable f) \<longrightarrow> names st n = Some (Callable f))
           \<and> names st' ''chat_history'' = Some (ListRef a)
           \<and> names st' ''messages'' = names st ''messages''"
  using assms
proof (induction tcs arbitrary: st)
  case Nil
  then show ?case by (intro exI [of _ "[]"]) simp
next
  case (Cons tool rest)
  show ?case
  proof (cases "call_result loads (locals_at_dispatch st) tool")
    case (Inl e)
    from exec_tool_Inl [OF Inl, of str] obtain st1 where
      st1: "exec_tool loads str tool st = (Some e, st1)" "heap st1 = heap st" "sent st1 = sent st"
        "next_addr st1 = next_addr st" "\<forall>n. names st1 n = names st n \<or> names st1 n = Some Other"
        "names st1 ''chat_history'' = names st ''chat_history''"
        "names st1 ''messages'' = names st ''messages''"
      by blast
    with Cons.prems have r: "r = Some e" "st' = st1" by simp_all
    from Cons.prems(1) st1(6)
    have ch: "names st1 ''chat_history'' = Some (ListRef a)" by simp
    have nm: "\<forall>n f. names st1 n = Some (Callable f) \<longrightarrow> names st n = Some (Callable f)"
    proof (intro allI impI)
      fix n f assume "names st1 n = Some (Callable f)"
      with st1(5) [rule_format, of n] show "names st n = Some (Callable f)" by auto
    qed
    show ?thesis
    proof (intro exI [of _ "[]"] conjI)
      show "\<forall>n f. names st' n = Some (Callable f) \<longrightarrow> names st n = Some (Callable f)"
        unfolding r(2) by (rule nm)
    qed (use r st1(2,3,4,7) ch in simp_all)
  next
    case (Inr res)
    from exec_tool_Inr [OF Inr Cons.prems(1), of str] obtain st1 where
      st1: "exec_tool loads str tool st = (None, st1)"
        "heap st1 = (heap st)(a := heap st a @ [function_call_results_message (tool_id tool) (str res)])"
        "sent st1 = sent st" "next_addr st1 = next_addr st"
        "\<forall>n. names st1 n = names st n \<or> names st1 n = Some Other"
        "names st1 ''chat_history'' = Some (ListRef a)"
        "names st1 ''messages'' = names st ''messages''"
      by blast
    with Cons.prems have rest: "exec_tool_calls loads str rest st1 = (r, st')" by simp
    from Cons.IH [OF st1(6) rest] obtain rs where
      rs: "length rs \<le> length rest" "r = None \<longleftrightarrow> length rs = length rest"
        "heap st' = (heap st1)(a := heap st1 a @ loop_messages str rest rs)"
        "\<forall>i<length rs. call_result loads (names st1) (rest ! i) = Inr (rs ! i)"
        "sent st' = sent st1" "next_addr st' = next_addr st1"
        "\<forall>n f. names st' n = Some (Callable f) \<longrightarrow> names st1 n = Some (Callable f)"
        "names st' ''chat_history'' = Some (ListRef a)"
        "names st' ''messages'' = names st1 ''messages''"
      by blast
    have step: "names st n = Some (Callable f)" if "names st1 n = Some (Callable f)" for n f
      using st1(5) [rule_format, of n] that by auto
    have head: "call_result loads (names st) tool = Inr res"
      by (rule call_result_mono [OF locals_at_dispatch_callable Inr])
    have tail: "call_result loads (names st) (rest ! i) = Inr (rs ! i)" if "i < length rs" for i
    proof (rule call_result_mono)
      show "names st n = Some (Callable f)" if "names st1 n = Some (Callable f)" for n f
        using step that by simp
      show "call_result loads (names st1) (rest ! i) = Inr (rs ! i)" using rs(4) that by simp
    qed
    have all: "\<forall>i<length (res # rs).
                 call_result loads (names st) ((tool # rest) ! i) = Inr ((res # rs) ! i)"
    proof (intro allI impI)
      fix i assume "i < length (res # rs)"
      then show "call_result loads (names st) ((tool # rest) ! i) = Inr ((res # rs) ! i)"
        using head tail by (cases i) simp_all
    qed
    have nm: "\<forall>n f. names st' n = Some (Callable f) \<longrightarrow> names st n = Some (Callable f)"
      using rs(7) step by blast
    have hp: "heap st' = (heap st)(a := heap st a @ loop_messages str (tool # rest) (res # rs))"
      using rs(3) st1(2) by (simp add: fun_eq_iff)
    have "length (res # rs) \<le> length (tool # rest)" using rs(1) by simp
    moreover have "r = None \<longleftrightarrow> length (res # rs) = length (tool # rest)" using rs(2) by simp
    moreover have "sent st' = sent st" "next_addr st' = next_addr st"
      using rs(5,6) st1(3,4) by simp_all
    moreover have "names st' ''messages'' = names st ''messages''" using rs(9) st1(7) by simp
    ultimately show ?thesis using hp all nm rs(8) by blast
  qed
qed

lemma exec_tool_calls_append:
  "exec_tool_calls loads str (xs @ ys) st =
     (case exec_tool_calls loads str xs st of
        (Some e, st') \<Rightarrow> (Some e, st')
      | (None, st') \<Rightarrow> exec_tool_calls loads str ys st')"
  by (induction xs arbitrary: st) (auto split: prod.splits option.splits)

lemma exec_tool_calls_run_steps:
  "exec_tool_calls loads str tcs = run_steps (map (exec_tool loads str) tcs)"
proof
  fix st show "exec_tool_calls loads str tcs st = run_steps (map (exec_tool loads str) tcs) st"
    by (induction tcs arbitrary: st) (auto split: prod.splits option.splits)
qed

text \<open>
  A request whose iteration raises, after requests that were served: the loop, the cell
  and every sequence of statements that starts with the cell end with that exception, in
  the state the served requests left, but for the loop's own variables.
\<close>

lemma failing_call:
  assumes "exec_tool_calls loads str before st = (None, st1)"
      and "call_result loads (locals_at_dispatch st1) tool = Inl e"
  shows "\<exists>st'. exec_tool_calls loads str (before @ tool # rest) st = (Some e, st')
           \<and> run_steps (for_tool_calls loads str (Some (before @ tool # rest)) # cells) st = (Some e, st')
           \<and> heap st' = heap st1 \<and> sent st' = sent st1
           \<and> names st' ''chat_history'' = names st1 ''chat_history''
           \<and> names st' ''messages'' = names st1 ''messages''"
proof -
  from exec_tool_Inl [OF assms(2), of str] obtain st' where
    st': "exec_tool loads str tool st1 = (Some e, st')" "heap st' = heap st1" "sent st' = sent st1"
      "names st' ''chat_history'' = names st1 ''chat_history''"
      "names st' ''messages'' = names st1 ''messages''"
    by blast
  have "exec_tool_calls loads str (before @ tool # rest) st = (Some e, st')"
    by (simp add: exec_tool_calls_append assms(1) st'(1))
  then show ?thesis using st' by (simp add: for_tool_calls_def)
qed

subsection \<open>Statements in sequence\<close>

lemma run_steps_append:
  "run_steps (xs @ ys) st =
     (case run_steps xs st of (Some e, st') \<Rightarrow> (Some e, st') | (None, st') \<Rightarrow> run_steps ys st')"
  by (induction xs arbitrary: st) (auto split: prod.splits option.splits)

lemma appends_only_list_append: "appends_only (list_append x v)"
  by (auto simp: appends_only_def list_append_def split: option.splits pyobj.splits)

lemma appends_only_create: "appends_only (create r x)"
  by (auto simp: appends_only_def create_def split: option.splits pyobj.splits)

lemma appends_only_assign_name: "appends_only (assign_name x y)"
  by (auto simp: appends_only_def assign_name_def split: option.splits)

lemma appends_only_inspect: "appends_only (inspect_tool_calls tool_calls)"
  by (auto simp: appends_only_def inspect_tool_calls_def Let_def split: option.splits list.splits)

lemma appends_only_exec_tool: "appends_only (exec_tool loads str tool)"
  by (auto simp: appends_only_def exec_tool_def Let_def list_append_def
           split: option.splits sum.splits pyobj.splits)

lemma appends_only_run_steps:
  "\<forall>c\<in>set cs. appends_only c \<Longrightarrow> appends_only (run_steps cs)"
proof (induction cs)
  case Nil
  then show ?case by (simp add: appends_only_def)
next
  case (Cons c cs)
  then have c: "appends_only c" and cs: "appends_only (run_steps cs)" by simp_all
  show ?case unfolding appends_only_def
  proof (intro allI)
    fix st b
    obtain r st1 where s: "c st = (r, st1)" by fastforce
    have p1: "prefix (heap st b) (heap st1 b)"
      using c s unfolding appends_only_def by (metis snd_conv)
    show "prefix (heap st b) (heap (snd (run_steps (c # cs) st)) b)"
    proof (cases r)
      case None
      have "prefix (heap st1 b) (heap (snd (run_steps cs st1)) b)"
        using cs unfolding appends_only_def by blast
      with p1 show ?thesis using s None by (auto intro: prefix_order.trans)
    next
      case (Some e)
      with p1 s show ?thesis by simp
    qed
  qed
qed

lemma appends_only_for_tool_calls: "appends_only (for_tool_calls loads str tool_calls)"
proof (cases tool_calls)
  case None
  then show ?thesis by (simp add: appends_only_def for_tool_calls_def)
next
  case (Some tcs)
  then have "for_tool_calls loads str tool_calls = run_steps (map (exec_tool loads str) tcs)"
    by (simp add: for_tool_calls_def fun_eq_iff exec_tool_calls_run_steps)
  then show ?thesis by (simp add: appends_only_run_steps appends_only_exec_tool)
qed

lemma appends_only_round_trip_cells:
  "\<forall>c\<in>set (round_trip_cells loads str a1 tool_calls a2). appends_only c"
  by (simp add: round_trip_cells_def send_cells_def tool_cells_def answer_cells_def
        appends_only_list_append appends_only_create appends_only_assign_name
        appends_only_inspect appends_only_for_tool_calls)

text \<open>Between any two points of a run of such statements, every list has only grown.\<close>

lemma run_steps_take_mono:
  assumes "\<forall>c\<in>set cs. appends_only c" and "j \<le> k"
  shows "prefix (heap (snd (run_steps (take j cs) st)) b) (heap (snd (run_steps (take k cs) st)) b)"
  using assms
proof (induction cs arbitrary: j k st)
  case Nil
  then show ?case by simp
next
  case (Cons c cs)
  show ?case
  proof (cases j)
    case 0
    have "\<forall>d\<in>set (take k (c # cs)). appends_only d"
      using Cons.prems(1) by (meson in_set_takeD)
    from appends_only_run_steps [OF this] show ?thesis
      using 0 by (simp add: appends_only_def)
  next
    case (Suc j')
    with Cons.prems(2) obtain k' where k: "k = Suc k'" "j' \<le> k'" by (cases k) auto
    obtain r st1 where s: "c st = (r, st1)" by fastforce
    show ?thesis
    proof (cases r)
      case None
      have "prefix (heap (snd (run_steps (take j' cs) st1)) b)
                   (heap (snd (run_steps (take k' cs) st1)) b)"
        using Cons.IH [of j' k' st1] Cons.prems(1) k(2) by simp
      then show ?thesis using Suc k s None by simp
    next
      case (Some e)
      then show ?thesis using Suc k s by simp
    qed
  qed
qed

lemma keeps_list_append: "keeps_history_name (list_append x v)"
  by (auto simp: keeps_history_name_def list_append_def split: option.splits pyobj.splits)

lemma keeps_create: "r \<noteq> ''chat_history'' \<Longrightarrow> keeps_history_name (create r x)"
  by (auto simp: keeps_history_name_def create_def split: option.splits pyobj.splits)

lemma keeps_inspect: "keeps_history_name (inspect_tool_calls tool_calls)"
  by (auto simp: keeps_history_name_def inspect_tool_calls_def Let_def split: option.splits list.splits)

lemma keeps_exec_tool: "keeps_history_name (exec_tool loads str tool)"
  by (auto simp: keeps_history_name_def exec_tool_def Let_def list_append_def
           split: option.splits sum.splits pyobj.splits)

lemma keeps_run_steps:
  "\<forall>c\<in>set cs. keeps_history_name c \<Longrightarrow> keeps_history_name (run_steps cs)"
proof (induction cs)
  case Nil
  then show ?case by (simp add: keeps_history_name_def)
next
  case (Cons c cs)
  then have c: "keeps_history_name c" and cs: "keeps_history_name (run_steps cs)" by simp_all
  show ?case unfolding keeps_history_name_def
  proof
    fix st
    obtain r st1 where s: "c st = (r, st1)" by fastforce
    have n1: "names st1 ''chat_history'' = names st ''chat_history''"
      using c s unfolding keeps_history_name_def by (metis snd_conv)
    show "names (snd (run_steps (c # cs) st)) ''chat_history'' = names st ''chat_history''"
    proof (cases r)
      case None
      have "names (snd (run_steps cs st1)) ''chat_history'' = names st1 ''chat_history''"
        using cs unfolding keeps_history_name_def by blast
      with n1 show ?thesis using s None by simp
    next
      case (Some e)
      with n1 s show ?thesis by simp
    qed
  qed
qed

lemma keeps_for_tool_calls: "keeps_history_name (for_tool_calls loads str tool_calls)"
proof (cases tool_calls)
  case None
  then show ?thesis by (simp add: keeps_history_name_def for_tool_calls_def)
next
  case (Some tcs)
  then have "for_tool_calls loads str tool_calls = run_steps (map (exec_tool loads str) tcs)"
    by (simp add: for_tool_calls_def fun_eq_iff exec_tool_calls_run_steps)
  then show ?thesis by (simp add: keeps_run_steps keeps_exec_tool)
qed

lemma keeps_round_trip_tail:
  "\<forall>c\<in>set (tl (round_trip_cells loads str a1 tool_calls a2)). keeps_history_name c"
  by (simp add: round_trip_cells_def send_cells_def tool_cells_def answer_cells_def
        keeps_list_append keeps_create keeps_inspect keeps_for_tool_calls)

text \<open>From the first statement of the round trip on, \<^verbatim>\<open>chat_history\<close> is the list of \<^verbatim>\<open>messages\<close>.\<close>

lemma history_name_bound:
  assumes "names st ''messages'' = Some (ListRef a)" and "1 \<le> k"
  shows "names (snd (run_steps (take k (round_trip_cells loads str a1 tool_calls a2)) st))
           ''chat_history'' = Some (ListRef a)"
proof -
  let ?cs = "round_trip_cells loads str a1 tool_calls a2"
  have cs: "?cs = assign_name ''chat_history'' ''messages'' # tl ?cs"
    by (simp add: round_trip_cells_def send_cells_def)
  from assms(2) obtain k' where k: "k = Suc k'" by (cases k) auto
  have first: "assign_name ''chat_history'' ''messages'' st
                 = (None, assign ''chat_history'' (ListRef a) st)"
    using assms(1) by (simp add: assign_name_def)
  have "\<forall>c\<in>set (take k' (tl ?cs)). keeps_history_name c"
    using keeps_round_trip_tail by (meson in_set_takeD)
  from keeps_run_steps [OF this]
  have "names (snd (run_steps (take k' (tl ?cs)) (assign ''chat_history'' (ListRef a) st)))
          ''chat_history'' = Some (ListRef a)"
    by (simp add: keeps_history_name_def)
  moreover have "run_steps (take k ?cs) st
      = run_steps (take k' (tl ?cs)) (assign ''chat_history'' (ListRef a) st)"
    by (subst cs) (simp add: k first)
  ultimately show ?thesis by simp
qed

subsection \<open>The cells\<close>

lemma setup_cells_char:
  "\<exists>st1. run_steps setup_cells st = (None, st1)
      \<and> names st1 ''messages'' = Some (ListRef (next_addr st))
      \<and> heap st1 (next_addr st) = messages
      \<and> sent st1 = sent st @ [Some messages]"
  by (simp add: setup_cells_def new_list_def create_def Let_def)

lemma send_cells_char:
  assumes "names st ''messages'' = Some (ListRef a)"
  shows "\<exists>st1. run_steps (send_cells assistant_1) st = (None, st1)
      \<and> names st1 ''messages'' = Some (ListRef a)
      \<and> names st1 ''chat_history'' = Some (ListRef a)
      \<and> heap st1 = (heap st)(a := heap st a @ [assistant_1])
      \<and> sent st1 = sent st @ [Some (heap st a)]
      \<and> (\<forall>n f. names st1 n = Some (Callable f) \<longrightarrow> names st n = Some (Callable f))"
  using assms
  by (simp add: send_cells_def assign_name_def create_def list_append_def)

lemma inspect_tool_calls_char:
  "\<exists>st1. inspect_tool_calls tool_calls st =
        (case tool_calls of None \<Rightarrow> Some TypeError | Some [] \<Rightarrow> Some IndexError | _ \<Rightarrow> None, st1)
      \<and> names st1 ''messages'' = names st ''messages''
      \<and> names st1 ''chat_history'' = names st ''chat_history''
      \<and> heap st1 = heap st
      \<and> sent st1 = sent st
      \<and> (\<forall>n f. names st1 n = Some (Callable f) \<longrightarrow> names st n = Some (Callable f))"
  by (simp add: inspect_tool_calls_def Let_def split: option.splits list.splits)

lemma answer_cells_char:
  assumes "names st ''chat_history'' = Some (ListRef a)"
  shows "\<exists>st1. run_steps (answer_cells assistant_2) st = (None, st1)
      \<and> names st1 ''messages'' = names st ''messages''
      \<and> names st1 ''chat_history'' = Some (ListRef a)
      \<and> heap st1 = (heap st)(a := heap st a @ [assistant_2, follow_up])
      \<and> sent st1 = sent st @ [Some (heap st a), Some (heap st a @ [assistant_2, follow_up])]"
  using assms
  by (simp add: answer_cells_def create_def list_append_def fun_eq_iff)

subsection \<open>The round trip and the notebook\<close>

text \<open>
  The round trip from a state in which \<^verbatim>\<open>messages\<close> is a list: the history is that list
  followed by the model's message, the results of the calls that returned and, when no
  exception ended the run, the final answer and the new user turn. Three requests are
  sent when the run completes, one when it does not.
\<close>

lemma round_trip_char:
  assumes m: "names st ''messages'' = Some (ListRef a)"
      and run: "round_trip loads str a1 tool_calls a2 st = (r, st')"
      and tcs: "tcs = (case tool_calls of None \<Rightarrow> [] | Some ts \<Rightarrow> ts)"
  shows "\<exists>rs. length rs \<le> length tcs
     \<and> (\<forall>i<length rs. call_result loads (names st) (tcs ! i) = Inr (rs ! i))
     \<and> names st' ''messages'' = Some (ListRef a)
     \<and> names st' ''chat_history'' = Some (ListRef a)
     \<and> heap st' = (heap st)(a := heap st a @ a1 # loop_messages str tcs rs
                                   @ (if r = None then [a2, follow_up] else []))
     \<and> sent st' = sent st @ Some (heap st a) #
          (if r = None
           then [Some (heap st a @ a1 # loop_messages str tcs rs),
                 Some (heap st a @ a1 # loop_messages str tcs rs @ [a2, follow_up])]
           else [])
     \<and> (r = None \<longrightarrow> tool_calls = Some tcs \<and> tcs \<noteq> [] \<and> length rs = length tcs)"
proof -
  from send_cells_char [OF m, of a1] obtain st1 where
    st1: "run_steps (send_cells a1) st = (None, st1)"
      "names st1 ''messages'' = Some (ListRef a)"
      "names st1 ''chat_history'' = Some (ListRef a)"
      "heap st1 = (heap st)(a := heap st a @ [a1])"
      "sent st1 = sent st @ [Some (heap st a)]"
      "\<forall>n f. names st1 n = Some (Callable f) \<longrightarrow> names st n = Some (Callable f)"
    by blast
  from inspect_tool_calls_char [of tool_calls st1] obtain st2 where
    st2: "inspect_tool_calls tool_calls st1 =
            (case tool_calls of None \<Rightarrow> Some TypeError | Some [] \<Rightarrow> Some IndexError | _ \<Rightarrow> None, st2)"
      "names st2 ''messages'' = names st1 ''messages''"
      "names st2 ''chat_history'' = names st1 ''chat_history''"
      "heap st2 = heap st1" "sent st2 = sent st1"
      "\<forall>n f. names st2 n = Some (Callable f) \<longrightarrow> names st1 n = Some (Callable f)"
    by blast
  have unfold: "round_trip loads str a1 tool_calls a2 st =
      (case inspect_tool_calls tool_calls st1 of
         (Some e, s) \<Rightarrow> (Some e, s)
       | (None, s) \<Rightarrow>
          (case for_tool_calls loads str tool_calls s of
             (Some e, s') \<Rightarrow> (Some e, s')
           | (None, s') \<Rightarrow> run_steps (answer_cells a2) s'))"
  proof -
    obtain r2 s2 where a: "inspect_tool_calls tool_calls st1 = (r2, s2)" by fastforce
    obtain r3 s3 where b: "for_tool_calls loads str tool_calls s2 = (r3, s3)" by fastforce
    show ?thesis
      by (cases r2; cases r3)
         (simp_all add: round_trip_def round_trip_cells_def run_steps_append st1(1)
            tool_cells_def a b)
  qed
  have m2: "names st2 ''messages'' = Some (ListRef a)" using st1(2) st2(2) by simp
  have ch2: "names st2 ''chat_history'' = Some (ListRef a)" using st2(3) st1(3) by simp
  have h2: "heap st2 = (heap st)(a := heap st a @ [a1])" using st1(4) st2(4) by simp
  have s2: "sent st2 = sent st @ [Some (heap st a)]" using st1(5) st2(5) by simp
  show ?thesis
  proof (cases "tool_calls = None \<or> tool_calls = Some []")
    case True
    then have e: "r \<noteq> None" "st' = st2"
      using run unfold st2(1) by (auto split: option.splits list.splits)
    have t: "tcs = []" using True tcs by auto
    show ?thesis
      by (rule exI [of _ "[]"]) (simp add: e m2 ch2 h2 s2 t)
  next
    case False
    then have tc: "tool_calls = Some tcs" "tcs \<noteq> []" using tcs by auto
    then have i2: "inspect_tool_calls tool_calls st1 = (None, st2)"
      using st2(1) by (auto split: list.splits)
    obtain r3 st3 where loop: "exec_tool_calls loads str tcs st2 = (r3, st3)" by fastforce
    from exec_tool_calls_char [OF ch2 loop] obtain rs where
      rs: "length rs \<le> length tcs" "r3 = None \<longleftrightarrow> length rs = length tcs"
        "heap st3 = (heap st2)(a := heap st2 a @ loop_messages str tcs rs)"
        "\<forall>i<length rs. call_result loads (names st2) (tcs ! i) = Inr (rs ! i)"
        "sent st3 = sent st2"
        "names st3 ''chat_history'' = Some (ListRef a)"
        "names st3 ''messages'' = names st2 ''messages''"
      by blast
    have cr: "\<forall>i<length rs. call_result loads (names st) (tcs ! i) = Inr (rs ! i)"
    proof (intro allI impI)
      fix i assume "i < length rs"
      with rs(4) have c2: "call_result loads (names st2) (tcs ! i) = Inr (rs ! i)" by simp
      show "call_result loads (names st) (tcs ! i) = Inr (rs ! i)"
      proof (rule call_result_mono [OF _ c2])
        fix n f assume "names st2 n = Some (Callable f)"
        then have "names st1 n = Some (Callable f)" using st2(6) by blast
        then show "names st n = Some (Callable f)" using st1(6) by blast
      qed
    qed
    have h3: "heap st3 = (heap st)(a := heap st a @ a1 # loop_messages str tcs rs)"
      using rs(3) h2 by (simp add: fun_eq_iff)
    have m3: "names st3 ''messages'' = Some (ListRef a)" using rs(7) m2 by simp
    have s3: "sent st3 = sent st @ [Some (heap st a)]" using rs(5) s2 by simp
    show ?thesis
    proof (cases r3)
      case (Some e)
      then have e: "r = Some e" "st' = st3"
        using run unfold i2 loop tc by (simp_all add: for_tool_calls_def)
      show ?thesis
      proof (intro exI [of _ rs] conjI)
        show "\<forall>i<length rs. call_result loads (names st) (tcs ! i) = Inr (rs ! i)" by (rule cr)
      qed (simp_all add: e rs(1,6) h3 m3 s3)
    next
      case None
      from answer_cells_char [OF rs(6), of a2] obtain st4 where
        st4: "run_steps (answer_cells a2) st3 = (None, st4)"
          "names st4 ''messages'' = names st3 ''messages''"
          "names st4 ''chat_history'' = Some (ListRef a)"
          "heap st4 = (heap st3)(a := heap st3 a @ [a2, follow_up])"
          "sent st4 = sent st3 @ [Some (heap st3 a), Some (heap st3 a @ [a2, follow_up])]"
        by blast
      from None have e: "r = None" "st' = st4"
        using run unfold i2 loop tc st4(1) by (simp_all add: for_tool_calls_def)
      have s4: "sent st4 = sent st @ [Some (heap st a), Some (heap st a @ a1 # loop_messages str tcs rs),
                                       Some (heap st a @ a1 # loop_messages str tcs rs @ [a2, follow_up])]"
        using st4(5) h3 s3 by simp
      have m4: "names st4 ''messages'' = Some (ListRef a)" using st4(2) m3 by simp
      have h4: "heap st4 = (heap st)(a := heap st a @ a1 # loop_messages str tcs rs @ [a2, follow_up])"
        using st4(4) h3 by (simp add: fun_eq_iff)
      have len: "length rs = length tcs" using None rs(2) by simp
      show ?thesis
      proof (intro exI [of _ rs] conjI)
        show "\<forall>i<length rs. call_result loads (names st) (tcs ! i) = Inr (rs ! i)" by (rule cr)
      qed (simp_all add: e st4(3) h4 m4 s4 len tc)
    qed
  qed
qed

lemma notebook_char:
  assumes run: "notebook loads str a1 tool_calls a2 st0 = (r, st')"
      and tcs: "tcs = (case tool_calls of None \<Rightarrow> [] | Some ts \<Rightarrow> ts)"
  shows "\<exists>rs. length rs \<le> length tcs
     \<and> names st' ''messages'' = Some (ListRef (next_addr st0))
     \<and> names st' ''chat_history'' = Some (ListRef (next_addr st0))
     \<and> heap st' (next_addr st0) = messages @ a1 # loop_messages str tcs rs
                                   @ (if r = None then [a2, follow_up] else [])
     \<and> sent st' = sent st0 @ Some messages # Some messages #
          (if r = None
           then [Some (messages @ a1 # loop_messages str tcs rs),
                 Some (messages @ a1 # loop_messages str tcs rs @ [a2, follow_up])]
           else [])
     \<and> (r = None \<longrightarrow> tool_calls = Some tcs \<and> tcs \<noteq> [] \<and> length rs = length tcs)"
proof -
  from setup_cells_char [of st0] obtain st1 where
    st1: "run_steps setup_cells st0 = (None, st1)"
      "names st1 ''messages'' = Some (ListRef (next_addr st0))"
      "heap st1 (next_addr st0) = messages" "sent st1 = sent st0 @ [Some messages]"
    by blast
  have "notebook loads str a1 tool_calls a2 st0 = round_trip loads str a1 tool_calls a2 st1"
    by (simp add: notebook_def round_trip_def run_steps_append st1(1))
  with run have rt: "round_trip loads str a1 tool_calls a2 st1 = (r, st')" by simp
  from round_trip_char [OF st1(2) rt tcs] obtain rs where
    rs: "length rs \<le> length tcs"
      "names st' ''messages'' = Some (ListRef (next_addr st0))"
      "names st' ''chat_history'' = Some (ListRef (next_addr st0))"
      "heap st' = (heap st1)(next_addr st0 := heap st1 (next_addr st0) @ a1 # loop_messages str tcs rs
                                   @ (if r = None then [a2, follow_up] else []))"
      "sent st' = sent st1 @ Some (heap st1 (next_addr st0)) #
          (if r = None
           then [Some (heap st1 (next_addr st0) @ a1 # loop_messages str tcs rs),
                 Some (heap st1 (next_addr st0) @ a1 # loop_messages str tcs rs @ [a2, follow_up])]
           else [])"
      "r = None \<longrightarrow> tool_calls = Some tcs \<and> tcs \<noteq> [] \<and> length rs = length tcs"
    by blast
  have "heap st' (next_addr st0) = messages @ a1 # loop_messages str tcs rs
                                   @ (if r = None then [a2, follow_up] else [])"
    unfolding rs(4) st1(3) by simp
  moreover have "sent st' = sent st0 @ Some messages # Some messages #
          (if r = None
           then [Some (messages @ a1 # loop_messages str tcs rs),
                 Some (messages @ a1 # loop_messages str tcs rs @ [a2, follow_up])]
           else [])"
    unfolding rs(5) st1(3,4) by simp
  ultimately show ?thesis using rs(1,2,3,6) by blast
qed

subsection \<open>Messages\<close>

lemma prompt_shape_messages: "\<forall>m\<in>set messages. prompt_shape m"
  by (simp add: messages_def message_def prompt_shape_def)

lemma prompt_shape_follow_up: "prompt_shape follow_up"
  by (simp add: follow_up_def message_def prompt_shape_def)

lemma tool_result_shape_message:
  "tool_result_shape (function_call_results_message i c)"
  by (simp add: function_call_results_message_def tool_result_shape_def)

lemma tool_result_shape_loop_messages:
  "\<forall>m\<in>set (loop_messages str tcs rs). tool_result_shape m"
  by (auto simp: loop_messages_def tool_result_shape_message)

lemma answers_append: "answers i (xs @ ys) = answers i xs @ answers i ys"
  by (simp add: answers_def)

lemma answers_messages: "answers i messages = []"
  by (simp add: answers_def messages_def message_def)

lemma answers_loop_messages:
  "length rs = length tcs \<Longrightarrow>
     length (answers i (loop_messages str tcs rs)) = length (filter (\<lambda>tc. tool_id tc = i) tcs)"
proof (induction tcs arbitrary: rs)
  case Nil
  then show ?case by (simp add: answers_def)
next
  case (Cons tc tcs)
  then obtain res rs' where rs: "rs = res # rs'" "length rs' = length tcs"
    by (cases rs) auto
  have "answers i (loop_messages str (tc # tcs) (res # rs'))
      = (if tool_id tc = i then [function_call_results_message (tool_id tc) (str res)] else [])
        @ answers i (loop_messages str tcs rs')"
    by (simp add: answers_def function_call_results_message_def)
  then show ?case using Cons.IH [OF rs(2)] rs(1) by simp
qed

lemma distinct_one_match:
  "distinct (map f xs) \<Longrightarrow> x \<in> set xs \<Longrightarrow> length (filter (\<lambda>y. f y = f x) xs) = 1"
proof (induction xs)
  case Nil
  then show ?case by simp
next
  case (Cons y ys)
  show ?case
  proof (cases "f y = f x")
    case True
    with Cons.prems(1) have "f x \<notin> f ` set ys" by simp
    then have "\<forall>z\<in>set ys. f z \<noteq> f x" by (metis imageI)
    then have "filter (\<lambda>z. f z = f x) ys = []" by (simp add: filter_empty_conv)
    with True show ?thesis by simp
  next
    case False
    with Cons.prems have "x \<in> set ys" "distinct (map f ys)" by auto
    with Cons.IH False show ?thesis by simp
  qed
qed

subsection \<open>The recorded run, evaluated\<close>

lemma loop_state_names:
  "names loop_state =
     (\<lambda>x. None)(''message'' \<mapsto> def2 ''role'' ''content'' message,
       ''messages'' \<mapsto> ListRef 0, ''completion'' \<mapsto> Other,
       ''get_weather_function_definition'' \<mapsto> Other, ''tools'' \<mapsto> ListRef 1,
       ''get_weather'' \<mapsto> def1 ''location'' get_weather, ''chat_history'' \<mapsto> ListRef 0,
       ''completion'' \<mapsto> Other, ''finish_reason'' \<mapsto> Other, ''tool_calls'' \<mapsto> Other)"
  by (simp add: loop_state_def setup_cells_def send_cells_def inspect_tool_calls_def
        new_list_def create_def assign_name_def list_append_def empty_state_def Let_def)

lemma loop_state_heap:
  "heap loop_state = (\<lambda>a. [])(0 := messages @ [recorded_assistant_1], 1 := tools)"
  by (simp add: loop_state_def setup_cells_def send_cells_def inspect_tool_calls_def
        new_list_def create_def assign_name_def list_append_def empty_state_def Let_def fun_eq_iff)

lemma loop_state_sent: "sent loop_state = [Some messages, Some messages]"
  by (simp add: loop_state_def setup_cells_def send_cells_def inspect_tool_calls_def
        new_list_def create_def assign_name_def list_append_def empty_state_def Let_def)

lemma loop_state_history:
  "names loop_state ''chat_history'' = Some (ListRef 0)"
  "names loop_state ''messages'' = Some (ListRef 0)"
  "list_of loop_state ''chat_history'' = Some (messages @ [recorded_assistant_1])"
  by (simp_all add: list_of_def loop_state_names loop_state_heap)

lemma setup_state_messages:
  "names setup_state ''messages'' = Some (ListRef 0)"
  by (simp add: setup_state_def setup_cells_def new_list_def create_def empty_state_def Let_def)

lemma py_str_get_weather:
  \<open>py_str (get_weather location) = ''{'temperature': 25, 'condition': 'sunny'}''\<close>
  by (simp add: py_str_def get_weather_def repr_str_def escape_char_def show_int_def
        show_nat.simps Let_def)

lemma recorded_call_result:
  "call_result loads_sample (locals_at_dispatch loop_state) recorded_tool_call
     = Inr (get_weather (PStr ''Sydney''))"
  by (simp add: call_result_def locals_at_dispatch_def loop_state_names loads_sample_def
        recorded_tool_call_def call_kw_def def1_def bind1_def)

lemma city_call_result:
  "call_result loads_sample (locals_at_dispatch loop_state) city_tool_call = Inl TypeError"
  by (simp add: call_result_def locals_at_dispatch_def loop_state_names loads_sample_def
        city_tool_call_def call_kw_def def1_def bind1_def)

lemma truncated_call_result:
  "call_result loads_sample (locals_at_dispatch loop_state) truncated_tool_call = Inl JSONDecodeError"
  by (simp add: call_result_def loads_sample_def truncated_tool_call_def)

lemma array_call_result:
  "call_result loads_sample (locals_at_dispatch loop_state) array_tool_call = Inl TypeError"
  by (simp add: call_result_def locals_at_dispatch_def loop_state_names loads_sample_def
        array_tool_call_def call_kw_def def1_def)

lemma nan_call_result:
  "call_result loads_sample (locals_at_dispatch loop_state) nan_tool_call
     = Inr (get_weather PNaN)"
  by (simp add: call_result_def locals_at_dispatch_def loop_state_names loads_sample_def
        nan_tool_call_def call_kw_def def1_def bind1_def)

text \<open>
  The texts of two of the examples against the grammar: the array is valid JSON; the
  object with the literal \<^verbatim>\<open>NaN\<close> is not, and no bound on the recursion makes it so.
\<close>

lemma array_text_valid: \<open>valid_json ''["Sydney"]''\<close>
  by code_simp

lemma nan_text_not_valid: \<open>\<not> valid_json ''{"location": NaN}''\<close>
  by code_simp

lemma nan_text_rejected_with_any_bound: \<open>json_value n ''{"location": NaN}'' = None\<close>
proof (cases n)
  case 0
  then show ?thesis by simp
next
  case n: (Suc m)
  show ?thesis
  proof (cases m)
    case 0
    with n show ?thesis by (simp add: skip_ws_def is_ws_def)
  next
    case m: (Suc k)
    show ?thesis
    proof (cases k)
      case 0
      with n m show ?thesis by (simp add: skip_ws_def is_ws_def)
    next
      case (Suc j)
      with n m show ?thesis
        by (simp add: skip_ws_def is_ws_def json_number_def json_int_def is_digit_def)
    qed
  qed
qed

lemma after_recorded_call_eq:
  "exec_tool_calls loads_sample py_str [recorded_tool_call] loop_state = (None, after_recorded_call)"
  using exec_tool_Inr [OF recorded_call_result loop_state_history(1), of py_str]
  by (auto simp: after_recorded_call_def)

lemma after_recorded_call_names:
  "names after_recorded_call =
     (names loop_state)(''tool'' \<mapsto> Other, ''function_name'' \<mapsto> Other,
       ''function_args'' \<mapsto> Other, ''tool_call_id'' \<mapsto> Other,
       ''function_call_results'' \<mapsto> Other, ''function_call_results_message'' \<mapsto> Other)"
  by (simp add: after_recorded_call_def exec_tool_def loop_state_names Let_def
        recorded_tool_call_def loads_sample_def call_kw_def def1_def bind1_def list_append_def)

lemma after_recorded_call_history:
  \<open>list_of after_recorded_call ''chat_history'' =
     Some (messages @ [recorded_assistant_1,
       function_call_results_message ''call_A0GbXBeZGkAR1ooDoMKQCPcs''
         ''{'temperature': 25, 'condition': 'sunny'}''])\<close>
  using exec_tool_Inr [OF recorded_call_result loop_state_history(1), of py_str]
  by (auto simp: after_recorded_call_def list_of_def loop_state_heap
        py_str_get_weather recorded_tool_call_def)

lemma after_recorded_call_sent: "sent after_recorded_call = [Some messages, Some messages]"
  using exec_tool_Inr [OF recorded_call_result loop_state_history(1), of py_str]
  by (auto simp: after_recorded_call_def loop_state_sent)

lemmas run_defs =
  notebook_def round_trip_cells_def setup_cells_def send_cells_def tool_cells_def
  answer_cells_def inspect_tool_calls_def for_tool_calls_def exec_tool_def
  new_list_def create_def assign_name_def list_append_def empty_state_def Let_def
  recorded_tool_call_def loads_sample_def call_kw_def def1_def def2_def bind1_def

lemma recorded_run_fst: "fst recorded_run = None"
  by (simp add: recorded_run_def run_defs)

lemma recorded_run_sent:
  \<open>sent (snd recorded_run) =
     [Some messages, Some messages,
      Some (messages @ [recorded_assistant_1,
        function_call_results_message ''call_A0GbXBeZGkAR1ooDoMKQCPcs''
          ''{'temperature': 25, 'condition': 'sunny'}'']),
      Some (messages @ [recorded_assistant_1,
        function_call_results_message ''call_A0GbXBeZGkAR1ooDoMKQCPcs''
          ''{'temperature': 25, 'condition': 'sunny'}'',
        recorded_assistant_2, follow_up])]\<close>
  by (simp add: recorded_run_def run_defs py_str_get_weather)

lemma recorded_run_history:
  \<open>list_of (snd recorded_run) ''chat_history'' =
     Some (messages @ [recorded_assistant_1,
        function_call_results_message ''call_A0GbXBeZGkAR1ooDoMKQCPcs''
          ''{'temperature': 25, 'condition': 'sunny'}'',
        recorded_assistant_2, follow_up])\<close>
  by (simp add: recorded_run_def run_defs py_str_get_weather list_of_def)

section \<open>The claims\<close>

subsection \<open>C1: one tool call for a registered function\<close>

text \<open>
  C1, as amended. The claim as stated promises the call and the appended message for
  every response with one tool call whose name resolves to a registered function. The
  loop has no handler: when \<^verbatim>\<open>json.loads\<close> raises, or the decoded value is not a mapping
  the function accepts and the call raises TypeError, the exception leaves the loop and
  nothing is appended (see the counterexample below). What holds: when the name resolves,
  at the line of the lookup, to a callable \<open>f\<close>, the arguments string decodes to a
  key-value mapping \<open>kwargs\<close> and the call \<open>f kwargs\<close> returns \<open>res\<close>, the loop over that
  one request ends without an exception and the history is the history before followed by
  one tool message, whose \<^verbatim>\<open>tool_call_id\<close> is the id of the request and whose content is
  \<^verbatim>\<open>str\<close> of \<open>res\<close>, the value of \<open>f\<close> on exactly \<open>kwargs\<close>.
\<close>

theorem registered_call_appends_result:
  assumes "names st ''chat_history'' = Some (ListRef a)"
      and "locals_at_dispatch st (function_name tool) = Some (Callable f)"
      and "loads (function_arguments tool) = Some (PDict kwargs)"
      and "f kwargs = Inr res"
  shows "\<exists>st'. exec_tool_calls loads str [tool] st = (None, st')
           \<and> list_of st' ''chat_history''
               = Some (heap st a @ [function_call_results_message (tool_id tool) (str res)])
           \<and> get (function_call_results_message (tool_id tool) (str res)) ''tool_call_id''
               = Some (PStr (tool_id tool))"
proof -
  have "call_result loads (locals_at_dispatch st) tool = Inr res"
    using assms(2,3,4) by (simp add: call_result_Inr_iff)
  from exec_tool_Inr [OF this assms(1), of str] obtain st' where
    "exec_tool loads str tool st = (None, st')"
    "heap st' = (heap st)(a := heap st a @ [function_call_results_message (tool_id tool) (str res)])"
    "names st' ''chat_history'' = Some (ListRef a)"
    by blast
  then show ?thesis by (simp add: list_of_def function_call_results_message_def)
qed

text \<open>
  The recorded run: the request \<^verbatim>\<open>get_weather\<close> with \<^verbatim>\<open>{"location":"Sydney"}\<close> is served,
  and the history gains the tool message the notebook shows.
\<close>

theorem registered_call_appends_result_witness:
  \<open>\<exists>st'. exec_tool_calls loads_sample py_str [recorded_tool_call] loop_state = (None, st')
      \<and> list_of st' ''chat_history''
          = Some (messages @ [recorded_assistant_1,
              function_call_results_message ''call_A0GbXBeZGkAR1ooDoMKQCPcs''
                ''{'temperature': 25, 'condition': 'sunny'}''])\<close>
proof -
  have h2: "locals_at_dispatch loop_state (function_name recorded_tool_call)
              = Some (Callable (bind1 ''location'' get_weather))"
    by (simp add: locals_at_dispatch_def loop_state_names recorded_tool_call_def def1_def)
  have h3: "loads_sample (function_arguments recorded_tool_call)
              = Some (PDict [(''location'', PStr ''Sydney'')])"
    by (simp add: loads_sample_def recorded_tool_call_def)
  have h4: "bind1 ''location'' get_weather [(''location'', PStr ''Sydney'')]
              = Inr (get_weather (PStr ''Sydney''))"
    by (simp add: bind1_def)
  have h5: "heap loop_state 0 = messages @ [recorded_assistant_1]"
    by (simp add: loop_state_heap)
  have h6: "tool_id recorded_tool_call = ''call_A0GbXBeZGkAR1ooDoMKQCPcs''"
    by (simp add: recorded_tool_call_def)
  from registered_call_appends_result
    [where f = "bind1 ''location'' get_weather" and str = py_str and loads = loads_sample
       and tool = recorded_tool_call, OF loop_state_history(1) h2 h3 h4]
  obtain st' where
    "exec_tool_calls loads_sample py_str [recorded_tool_call] loop_state = (None, st')"
    "list_of st' ''chat_history''
       = Some (heap loop_state 0 @ [function_call_results_message (tool_id recorded_tool_call)
                                     (py_str (get_weather (PStr ''Sydney'')))])"
    by blast
  then show ?thesis unfolding h5 h6 py_str_get_weather by simp
qed

text \<open>
  C1 as stated fails. The request names \<^verbatim>\<open>get_weather\<close>, which is registered, and its
  arguments \<^verbatim>\<open>{"city":"Sydney"}\<close> are valid JSON for a mapping, but
  \<^verbatim>\<open>get_weather(**{"city": "Sydney"})\<close> raises TypeError (an unexpected keyword): the
  loop ends with that exception and the history is what it was. The same happens, with
  JSONDecodeError, for the arguments \<^verbatim>\<open>{"location":\<close>.
\<close>

theorem registered_call_counterexample:
  "names loop_state (function_name city_tool_call) = Some (def1 ''location'' get_weather)
   \<and> loads_sample (function_arguments city_tool_call) = Some (PDict [(''city'', PStr ''Sydney'')])
   \<and> fst (exec_tool_calls loads_sample py_str [city_tool_call] loop_state) = Some TypeError
   \<and> list_of (snd (exec_tool_calls loads_sample py_str [city_tool_call] loop_state)) ''chat_history''
       = Some (messages @ [recorded_assistant_1])
   \<and> list_of loop_state ''chat_history'' = Some (messages @ [recorded_assistant_1])
   \<and> fst (exec_tool_calls loads_sample py_str [truncated_tool_call] loop_state)
       = Some JSONDecodeError
   \<and> list_of (snd (exec_tool_calls loads_sample py_str [truncated_tool_call] loop_state))
        ''chat_history'' = Some (messages @ [recorded_assistant_1])"
proof -
  from exec_tool_Inl [OF city_call_result, of py_str] obtain s1 where
    s1: "exec_tool loads_sample py_str city_tool_call loop_state = (Some TypeError, s1)"
      "heap s1 = heap loop_state"
      "names s1 ''chat_history'' = names loop_state ''chat_history''"
    by blast
  from exec_tool_Inl [OF truncated_call_result, of py_str] obtain s2 where
    s2: "exec_tool loads_sample py_str truncated_tool_call loop_state = (Some JSONDecodeError, s2)"
      "heap s2 = heap loop_state"
      "names s2 ''chat_history'' = names loop_state ''chat_history''"
    by blast
  have r1: "exec_tool_calls loads_sample py_str [city_tool_call] loop_state = (Some TypeError, s1)"
    by (simp add: s1(1))
  have r2: "exec_tool_calls loads_sample py_str [truncated_tool_call] loop_state
              = (Some JSONDecodeError, s2)"
    by (simp add: s2(1))
  have l1: "list_of s1 ''chat_history'' = Some (messages @ [recorded_assistant_1])"
    using list_of_cong [OF s1(3,2)] by (simp only: loop_state_history(3))
  have l2: "list_of s2 ''chat_history'' = Some (messages @ [recorded_assistant_1])"
    using list_of_cong [OF s2(3,2)] by (simp only: loop_state_history(3))
  have c1: "names loop_state (function_name city_tool_call) = Some (def1 ''location'' get_weather)"
    by (simp add: loop_state_names city_tool_call_def)
  have c2: "loads_sample (function_arguments city_tool_call)
              = Some (PDict [(''city'', PStr ''Sydney'')])"
    by (simp add: loads_sample_def city_tool_call_def)
  show ?thesis
    unfolding r1 r2 fst_conv snd_conv
    by (intro conjI c1 c2 l1 l2 loop_state_history(3) refl)
qed

subsection \<open>C2: one result for each request before the next model call\<close>

text \<open>
  C2. The next model call after the tool calls is the request for \<^verbatim>\<open>response_2\<close>, the
  third request of the notebook. Whenever that request is sent, the model's response held
  a list of tool calls, the loop has run to its end, and the history sent is the two
  prompt messages, the model's message and then one tool result message for each request,
  in the order of the requests, the \<open>i\<close>-th carrying the id of the \<open>i\<close>-th request: no
  request is left unanswered and none is answered twice. When the ids of the requests are
  distinct (and the model's message is not itself a tool message), the history holds
  exactly one tool message with the id of each request.
\<close>

theorem every_request_answered_once:
  assumes "notebook loads str a1 tool_calls a2 st0 = (r, st')"
      and "length (sent st0) + 3 \<le> length (sent st')"
  shows "\<exists>tcs results. tool_calls = Some tcs
           \<and> sent st' ! (length (sent st0) + 2) = Some (messages @ a1 # results)
           \<and> length results = length tcs
           \<and> (\<forall>i<length tcs. tool_result_shape (results ! i)
                 \<and> get (results ! i) ''tool_call_id'' = Some (PStr (tool_id (tcs ! i))))
           \<and> (distinct (map tool_id tcs) \<and> get a1 ''role'' \<noteq> Some (PStr ''tool'') \<longrightarrow>
                (\<forall>tc\<in>set tcs. length (answers (tool_id tc) (messages @ a1 # results)) = 1))"
proof -
  define tcs where "tcs = (case tool_calls of None \<Rightarrow> [] | Some ts \<Rightarrow> ts)"
  from notebook_char [OF assms(1) tcs_def] obtain rs where
    rs: "length rs \<le> length tcs"
      "sent st' = sent st0 @ Some messages # Some messages #
          (if r = None
           then [Some (messages @ a1 # loop_messages str tcs rs),
                 Some (messages @ a1 # loop_messages str tcs rs @ [a2, follow_up])]
           else [])"
      "r = None \<longrightarrow> tool_calls = Some tcs \<and> tcs \<noteq> [] \<and> length rs = length tcs"
    by blast
  have r: "r = None"
  proof (rule ccontr)
    assume "r \<noteq> None"
    with rs(2) have "length (sent st') = length (sent st0) + 2" by simp
    with assms(2) show False by simp
  qed
  with rs(3) have tc: "tool_calls = Some tcs" and len: "length rs = length tcs" by simp_all
  let ?results = "loop_messages str tcs rs"
  have third: "sent st' ! (length (sent st0) + 2) = Some (messages @ a1 # ?results)"
    using rs(2) r by (simp add: nth_append)
  have lres: "length ?results = length tcs" using len by simp
  have each: "\<forall>i<length tcs. tool_result_shape (?results ! i)
                 \<and> get (?results ! i) ''tool_call_id'' = Some (PStr (tool_id (tcs ! i)))"
  proof (intro allI impI)
    fix i assume "i < length tcs"
    with len have i: "i < length rs" by simp
    from loop_messages_nth [OF i rs(1), of str]
    show "tool_result_shape (?results ! i)
            \<and> get (?results ! i) ''tool_call_id'' = Some (PStr (tool_id (tcs ! i)))"
      by (simp add: tool_result_shape_message) (simp add: function_call_results_message_def)
  qed
  have once: "distinct (map tool_id tcs) \<and> get a1 ''role'' \<noteq> Some (PStr ''tool'') \<longrightarrow>
                (\<forall>tc\<in>set tcs. length (answers (tool_id tc) (messages @ a1 # ?results)) = 1)"
  proof (intro impI ballI)
    fix tc assume d: "distinct (map tool_id tcs) \<and> get a1 ''role'' \<noteq> Some (PStr ''tool'')"
      and tc: "tc \<in> set tcs"
    have "answers (tool_id tc) (messages @ a1 # ?results) = answers (tool_id tc) ?results"
      using d answers_append [of "tool_id tc" messages "a1 # ?results"]
      by (simp add: answers_messages) (simp add: answers_def)
    then show "length (answers (tool_id tc) (messages @ a1 # ?results)) = 1"
      using answers_loop_messages [OF len, of "tool_id tc" str] distinct_one_match [of tool_id tcs tc] d tc
      by simp
  qed
  from tc third lres each once show ?thesis by blast
qed

text \<open>
  The recorded run sends the request for \<^verbatim>\<open>response_2\<close>, and the history it sends holds
  exactly one tool message with the id of the recorded request.
\<close>

theorem every_request_answered_once_witness:
  \<open>sent (snd recorded_run) ! 2
     = Some (messages @ [recorded_assistant_1,
         function_call_results_message ''call_A0GbXBeZGkAR1ooDoMKQCPcs''
           ''{'temperature': 25, 'condition': 'sunny'}''])
   \<and> length (answers ''call_A0GbXBeZGkAR1ooDoMKQCPcs''
        (messages @ [recorded_assistant_1,
           function_call_results_message ''call_A0GbXBeZGkAR1ooDoMKQCPcs''
             ''{'temperature': 25, 'condition': 'sunny'}''])) = 1\<close>
proof -
  have run: "notebook loads_sample py_str recorded_assistant_1 (Some [recorded_tool_call])
               recorded_assistant_2 empty_state = (None, snd recorded_run)"
    using recorded_run_fst by (simp add: recorded_run_def prod_eq_iff)
  have n: "length (sent empty_state) + 3 \<le> length (sent (snd recorded_run))"
    unfolding recorded_run_sent by (simp add: empty_state_def)
  have z: "length (sent empty_state) + 2 = 2" by (simp add: empty_state_def)
  have d: "distinct (map tool_id [recorded_tool_call])
             \<and> get recorded_assistant_1 ''role'' \<noteq> Some (PStr ''tool'')"
    by (simp add: recorded_assistant_1_def)
  have i: "tool_id recorded_tool_call = ''call_A0GbXBeZGkAR1ooDoMKQCPcs''"
    by (simp add: recorded_tool_call_def)
  from every_request_answered_once [OF run n] obtain tcs results where
    t: "Some [recorded_tool_call] = Some tcs"
      "sent (snd recorded_run) ! (length (sent empty_state) + 2)
         = Some (messages @ recorded_assistant_1 # results)"
      "distinct (map tool_id tcs) \<and> get recorded_assistant_1 ''role'' \<noteq> Some (PStr ''tool'') \<longrightarrow>
         (\<forall>tc\<in>set tcs. length (answers (tool_id tc) (messages @ recorded_assistant_1 # results)) = 1)"
    by blast
  from t(1) have tcs: "tcs = [recorded_tool_call]" by simp
  from t(3) d have "length (answers (tool_id recorded_tool_call)
                      (messages @ recorded_assistant_1 # results)) = 1"
    unfolding tcs by simp
  then have c: "length (answers ''call_A0GbXBeZGkAR1ooDoMKQCPcs''
                         (messages @ recorded_assistant_1 # results)) = 1"
    unfolding i .
  have s: "sent (snd recorded_run) ! 2
       = Some (messages @ [recorded_assistant_1,
           function_call_results_message ''call_A0GbXBeZGkAR1ooDoMKQCPcs''
             ''{'temperature': 25, 'condition': 'sunny'}''])"
    unfolding recorded_run_sent by simp
  from t(2) s have "messages @ recorded_assistant_1 # results
       = messages @ [recorded_assistant_1,
           function_call_results_message ''call_A0GbXBeZGkAR1ooDoMKQCPcs''
             ''{'temperature': 25, 'condition': 'sunny'}'']"
    unfolding z by simp
  with c s show ?thesis by simp
qed

subsection \<open>C3: a name that is not bound\<close>

text \<open>
  C3. The function is looked up by name in \<^verbatim>\<open>locals()\<close>, the namespace of the module.
  For every request whose name is not bound there at the line of the lookup, the
  subscript raises KeyError with that name (the spec's UnknownFunction), and nothing
  catches it: when the requests before it were served and its arguments decoded (the
  lookup is reached), the loop ends with that KeyError, and so does every run of
  statements that starts with the loop, so that no further request is sent to the model.
  A name bound to an object that is not callable is found, and the call raises TypeError.
\<close>

theorem unknown_function_raises_KeyError:
  assumes "exec_tool_calls loads str before st = (None, st1)"
      and "loads (function_arguments tool) = Some function_args"
      and "locals_at_dispatch st1 (function_name tool) = None"
  shows "\<exists>st'. exec_tool_calls loads str (before @ tool # rest) st
                 = (Some (KeyError (function_name tool)), st')
           \<and> run_steps (for_tool_calls loads str (Some (before @ tool # rest)) # cells) st
                 = (Some (KeyError (function_name tool)), st')
           \<and> sent st' = sent st1"
proof -
  have "call_result loads (locals_at_dispatch st1) tool = Inl (KeyError (function_name tool))"
    using assms(2,3) by (simp add: call_result_def)
  from failing_call [OF assms(1) this] show ?thesis by blast
qed

text \<open>
  After the recorded request, a request for \<^verbatim>\<open>get_time\<close>, which the notebook does not
  define: KeyError, and the request for \<^verbatim>\<open>response_2\<close> is not sent.
\<close>

theorem unknown_function_raises_KeyError_witness:
  "\<exists>st'. exec_tool_calls loads_sample py_str
            ([recorded_tool_call] @ unknown_tool_call # [city_tool_call]) loop_state
          = (Some (KeyError ''get_time''), st')
      \<and> run_steps (for_tool_calls loads_sample py_str
            (Some ([recorded_tool_call] @ unknown_tool_call # [city_tool_call]))
            # answer_cells recorded_assistant_2) loop_state
          = (Some (KeyError ''get_time''), st')
      \<and> sent st' = [Some messages, Some messages]"
proof -
  have h2: "loads_sample (function_arguments unknown_tool_call)
              = Some (PDict [(''location'', PStr ''Sydney'')])"
    by (simp add: loads_sample_def unknown_tool_call_def)
  have h3: "locals_at_dispatch after_recorded_call (function_name unknown_tool_call) = None"
    by (simp add: locals_at_dispatch_def after_recorded_call_names loop_state_names
          unknown_tool_call_def)
  have n: "function_name unknown_tool_call = ''get_time''"
    by (simp add: unknown_tool_call_def)
  from unknown_function_raises_KeyError [OF after_recorded_call_eq h2 h3,
      of "[city_tool_call]" "answer_cells recorded_assistant_2"]
  show ?thesis unfolding n after_recorded_call_sent .
qed

subsection \<open>C4: decoding the arguments\<close>

text \<open>
  C4, as amended. The claim as stated has the arguments string parsed as JSON into a
  key-value mapping, and every string that is not valid JSON rejected. The loop calls
  \<^verbatim>\<open>json.loads\<close> and checks nothing itself, and \<^verbatim>\<open>json.loads\<close>, as the loop calls it,
  accepts the literal \<^verbatim>\<open>NaN\<close>, which is not JSON, and returns whatever value the text
  denotes, a list for an array (see the counterexample below). What holds, for a request
  reached after the requests before it were served:
  \<^item> when \<^verbatim>\<open>json.loads\<close> raises JSONDecodeError on the arguments string (the spec's
    MalformedArguments), the loop ends with that exception, the requests after it are not
    processed, the history is as the served requests left it, and every run of statements
    that starts with the loop ends with the exception too, so that no further request is
    sent to the model;
  \<^item> when \<^verbatim>\<open>json.loads\<close> returns a value, that value is what the object bound to the
    requested name is called with, as its keyword mapping: when the call raises, the loop
    ends with that exception and the history unchanged; when it returns, the tool message
    for the result is appended; and a value that is not a key-value mapping makes the
    call raise TypeError.
\<close>

theorem arguments_decoded_by_json_loads:
  assumes "exec_tool_calls loads str before st = (None, st1)"
  shows
    "(loads (function_arguments tool) = None \<longrightarrow>
        (\<exists>st'. exec_tool_calls loads str (before @ tool # rest) st = (Some JSONDecodeError, st')
           \<and> run_steps (for_tool_calls loads str (Some (before @ tool # rest)) # cells) st
                 = (Some JSONDecodeError, st')
           \<and> list_of st' ''chat_history'' = list_of st1 ''chat_history''
           \<and> sent st' = sent st1))
     \<and> (\<forall>v obj a.
           loads (function_arguments tool) = Some v
           \<and> locals_at_dispatch st1 (function_name tool) = Some obj
           \<and> names st1 ''chat_history'' = Some (ListRef a) \<longrightarrow>
           (case call_kw obj v of
              Inl e \<Rightarrow>
                (\<exists>st'. exec_tool_calls loads str (before @ tool # rest) st = (Some e, st')
                   \<and> list_of st' ''chat_history'' = Some (heap st1 a))
            | Inr res \<Rightarrow>
                (\<exists>st'. exec_tool_calls loads str (before @ [tool]) st = (None, st')
                   \<and> list_of st' ''chat_history''
                       = Some (heap st1 a
                               @ [function_call_results_message (tool_id tool) (str res)])))
           \<and> ((\<forall>kwargs. v \<noteq> PDict kwargs) \<longrightarrow> call_kw obj v = Inl TypeError))"
proof (intro conjI impI allI)
  assume "loads (function_arguments tool) = None"
  then have "call_result loads (locals_at_dispatch st1) tool = Inl JSONDecodeError"
    by (simp add: call_result_def)
  from failing_call [OF assms this]
  show "\<exists>st'. exec_tool_calls loads str (before @ tool # rest) st = (Some JSONDecodeError, st')
           \<and> run_steps (for_tool_calls loads str (Some (before @ tool # rest)) # cells) st
                 = (Some JSONDecodeError, st')
           \<and> list_of st' ''chat_history'' = list_of st1 ''chat_history''
           \<and> sent st' = sent st1"
    using list_of_cong by blast
next
  fix v obj a
  assume h: "loads (function_arguments tool) = Some v
           \<and> locals_at_dispatch st1 (function_name tool) = Some obj
           \<and> names st1 ''chat_history'' = Some (ListRef a)"
  then have cr: "call_result loads (locals_at_dispatch st1) tool = call_kw obj v"
    by (simp add: call_result_def)
  from h have ch: "names st1 ''chat_history'' = Some (ListRef a)" by simp
  then have l1: "list_of st1 ''chat_history'' = Some (heap st1 a)" by (simp add: list_of_def)
  show "case call_kw obj v of
              Inl e \<Rightarrow>
                (\<exists>st'. exec_tool_calls loads str (before @ tool # rest) st = (Some e, st')
                   \<and> list_of st' ''chat_history'' = Some (heap st1 a))
            | Inr res \<Rightarrow>
                (\<exists>st'. exec_tool_calls loads str (before @ [tool]) st = (None, st')
                   \<and> list_of st' ''chat_history''
                       = Some (heap st1 a
                               @ [function_call_results_message (tool_id tool) (str res)]))"
  proof (cases "call_kw obj v")
    case (Inl e)
    with cr have "call_result loads (locals_at_dispatch st1) tool = Inl e" by simp
    from failing_call [OF assms this, of rest "[]"] obtain st' where
      "exec_tool_calls loads str (before @ tool # rest) st = (Some e, st')"
      "heap st' = heap st1" "names st' ''chat_history'' = names st1 ''chat_history''"
      by blast
    then have "exec_tool_calls loads str (before @ tool # rest) st = (Some e, st')
                 \<and> list_of st' ''chat_history'' = Some (heap st1 a)"
      using list_of_cong [of st' "''chat_history''" st1] l1 by simp
    then show ?thesis unfolding Inl by (simp only: sum.case) blast
  next
    case (Inr res)
    with cr have "call_result loads (locals_at_dispatch st1) tool = Inr res" by simp
    from exec_tool_Inr [OF this ch, of str] obtain st' where
      st': "exec_tool loads str tool st1 = (None, st')"
        "heap st' = (heap st1)(a := heap st1 a @ [function_call_results_message (tool_id tool) (str res)])"
        "names st' ''chat_history'' = Some (ListRef a)"
      by blast
    have "exec_tool_calls loads str (before @ [tool]) st = (None, st')"
      by (simp add: exec_tool_calls_append assms st'(1))
    moreover have "list_of st' ''chat_history''
        = Some (heap st1 a @ [function_call_results_message (tool_id tool) (str res)])"
      using st'(2,3) by (simp add: list_of_def)
    ultimately show ?thesis unfolding Inr by (simp only: sum.case) blast
  qed
next
  fix v obj a
  assume "\<forall>kwargs. v \<noteq> PDict kwargs"
  then show "call_kw obj v = Inl TypeError"
    by (cases obj; cases v) (simp_all add: call_kw_def)
qed

text \<open>
  Where the recorded run enters the loop: the arguments \<^verbatim>\<open>{"location":\<close>, cut off, end
  the loop with JSONDecodeError before the recorded request that follows is served; the
  arguments \<^verbatim>\<open>["Sydney"]\<close> decode to a list, and the call of \<^verbatim>\<open>get_weather\<close> with it raises
  TypeError. The history has no tool message in either case.
\<close>

theorem arguments_decoded_by_json_loads_witness:
  "(\<exists>st'. exec_tool_calls loads_sample py_str ([] @ truncated_tool_call # [recorded_tool_call])
            loop_state = (Some JSONDecodeError, st')
      \<and> run_steps (for_tool_calls loads_sample py_str
            (Some ([] @ truncated_tool_call # [recorded_tool_call]))
            # answer_cells recorded_assistant_2) loop_state
          = (Some JSONDecodeError, st')
      \<and> list_of st' ''chat_history'' = Some (messages @ [recorded_assistant_1])
      \<and> sent st' = [Some messages, Some messages])
   \<and> (\<exists>st'. exec_tool_calls loads_sample py_str ([] @ array_tool_call # [recorded_tool_call])
            loop_state = (Some TypeError, st')
      \<and> list_of st' ''chat_history'' = Some (messages @ [recorded_assistant_1]))"
proof -
  have h1: "exec_tool_calls loads_sample py_str [] loop_state = (None, loop_state)" by simp
  have h2: "loads_sample (function_arguments truncated_tool_call) = None"
    by (simp add: loads_sample_def truncated_tool_call_def)
  have h0: "heap loop_state 0 = messages @ [recorded_assistant_1]"
    by (simp add: loop_state_heap)
  have p: "loads_sample (function_arguments array_tool_call) = Some (PList [PStr ''Sydney''])
           \<and> locals_at_dispatch loop_state (function_name array_tool_call)
               = Some (def1 ''location'' get_weather)
           \<and> names loop_state ''chat_history'' = Some (ListRef 0)"
    by (simp add: loads_sample_def array_tool_call_def locals_at_dispatch_def loop_state_names)
  have ck: "call_kw (def1 ''location'' get_weather) (PList [PStr ''Sydney'']) = Inl TypeError"
    by (simp add: call_kw_def def1_def)
  note t1 = arguments_decoded_by_json_loads [OF h1, where tool = truncated_tool_call
      and rest = "[recorded_tool_call]" and cells = "answer_cells recorded_assistant_2",
      THEN conjunct1, rule_format, OF h2]
  note t2 = arguments_decoded_by_json_loads [OF h1, where tool = array_tool_call
      and rest = "[recorded_tool_call]" and cells = "[]",
      THEN conjunct2, rule_format, OF p, THEN conjunct1, unfolded ck sum.case h0]
  from t1 have a: "\<exists>st'. exec_tool_calls loads_sample py_str
            ([] @ truncated_tool_call # [recorded_tool_call]) loop_state = (Some JSONDecodeError, st')
      \<and> run_steps (for_tool_calls loads_sample py_str
            (Some ([] @ truncated_tool_call # [recorded_tool_call]))
            # answer_cells recorded_assistant_2) loop_state
          = (Some JSONDecodeError, st')
      \<and> list_of st' ''chat_history'' = Some (messages @ [recorded_assistant_1])
      \<and> sent st' = [Some messages, Some messages]"
    unfolding loop_state_history(3) loop_state_sent .
  from a t2 show ?thesis by (rule conjI)
qed

text \<open>
  C4 as stated fails, in both halves. The arguments \<^verbatim>\<open>{"location": NaN}\<close> are not valid
  JSON, yet \<^verbatim>\<open>json.loads\<close> decodes them, to \<^verbatim>\<open>{"location": nan}\<close>: the request is served
  and its tool message appended, with no exception. The arguments \<^verbatim>\<open>["Sydney"]\<close> are
  valid JSON and decode to a list, not to a key-value mapping; the failure that follows is
  the TypeError of the call.
\<close>

theorem valid_json_counterexample:
  \<open>function_arguments nan_tool_call = ''{"location": NaN}''
   \<and> \<not> valid_json ''{"location": NaN}''
   \<and> loads_sample ''{"location": NaN}'' = Some (PDict [(''location'', PNaN)])
   \<and> fst (exec_tool_calls loads_sample py_str [nan_tool_call] loop_state) = None
   \<and> list_of (snd (exec_tool_calls loads_sample py_str [nan_tool_call] loop_state)) ''chat_history''
       = Some (messages @ [recorded_assistant_1,
           function_call_results_message ''call_5'' ''{'temperature': 25, 'condition': 'sunny'}''])
   \<and> function_arguments array_tool_call = ''["Sydney"]''
   \<and> valid_json ''["Sydney"]''
   \<and> loads_sample ''["Sydney"]'' = Some (PList [PStr ''Sydney''])
   \<and> fst (exec_tool_calls loads_sample py_str [array_tool_call] loop_state) = Some TypeError\<close>
proof -
  from exec_tool_Inr [OF nan_call_result loop_state_history(1), of py_str] obtain s1 where
    s1: "exec_tool loads_sample py_str nan_tool_call loop_state = (None, s1)"
      "heap s1 = (heap loop_state)(0 := heap loop_state 0
          @ [function_call_results_message (tool_id nan_tool_call) (py_str (get_weather PNaN))])"
      "names s1 ''chat_history'' = Some (ListRef 0)"
    by blast
  from exec_tool_Inl [OF array_call_result, of py_str] obtain s2 where
    s2: "exec_tool loads_sample py_str array_tool_call loop_state = (Some TypeError, s2)"
    by blast
  have r1: "exec_tool_calls loads_sample py_str [nan_tool_call] loop_state = (None, s1)"
    by (simp add: s1(1))
  have r2: "exec_tool_calls loads_sample py_str [array_tool_call] loop_state = (Some TypeError, s2)"
    by (simp add: s2(1))
  have h0: "heap loop_state 0 = messages @ [recorded_assistant_1]"
    by (simp add: loop_state_heap)
  have i: "tool_id nan_tool_call = ''call_5''" by (simp add: nan_tool_call_def)
  have l1: "list_of s1 ''chat_history''
       = Some (messages @ [recorded_assistant_1,
           function_call_results_message ''call_5'' ''{'temperature': 25, 'condition': 'sunny'}''])"
    using s1(2,3) unfolding h0 i py_str_get_weather by (simp add: list_of_def)
  have c1: "function_arguments nan_tool_call = ''{\"location\": NaN}''"
    by (simp add: nan_tool_call_def)
  have c2: "\<not> valid_json ''{\"location\": NaN}''" by (rule nan_text_not_valid)
  have c3: "loads_sample ''{\"location\": NaN}'' = Some (PDict [(''location'', PNaN)])"
    by (simp add: loads_sample_def)
  have c4: "function_arguments array_tool_call = ''[\"Sydney\"]''"
    by (simp add: array_tool_call_def)
  have c5: "valid_json ''[\"Sydney\"]''" by (rule array_text_valid)
  have c6: "loads_sample ''[\"Sydney\"]'' = Some (PList [PStr ''Sydney''])"
    by (simp add: loads_sample_def)
  show ?thesis
    unfolding r1 r2 fst_conv snd_conv
    by (intro conjI c1 c2 c3 c4 c5 c6 l1 refl)
qed

subsection \<open>C5: the history after a failed dispatch\<close>

text \<open>
  C5. For every request whose function name is not bound at the line of the lookup, an
  exception is raised (JSONDecodeError when the arguments do not decode either, KeyError
  otherwise) and no list object has changed since the requests before it were served: the
  history, read through \<^verbatim>\<open>chat_history\<close> or through \<^verbatim>\<open>messages\<close>, is exactly what it was
  before the failed dispatch, with no tool message for the request.
\<close>

theorem unknown_function_leaves_history:
  assumes "exec_tool_calls loads str before st = (None, st1)"
      and "locals_at_dispatch st1 (function_name tool) = None"
  shows "\<exists>e st'. exec_tool_calls loads str (before @ tool # rest) st = (Some e, st')
           \<and> (e = JSONDecodeError \<or> e = KeyError (function_name tool))
           \<and> heap st' = heap st1
           \<and> list_of st' ''chat_history'' = list_of st1 ''chat_history''
           \<and> list_of st' ''messages'' = list_of st1 ''messages''"
proof -
  have "call_result loads (locals_at_dispatch st1) tool = Inl JSONDecodeError
      \<or> call_result loads (locals_at_dispatch st1) tool = Inl (KeyError (function_name tool))"
    using assms(2) by (simp add: call_result_def split: option.splits)
  then obtain e where e: "call_result loads (locals_at_dispatch st1) tool = Inl e"
    "e = JSONDecodeError \<or> e = KeyError (function_name tool)" by blast
  from failing_call [OF assms(1) e(1)] obtain st' where
    "exec_tool_calls loads str (before @ tool # rest) st = (Some e, st')"
    "heap st' = heap st1" "names st' ''chat_history'' = names st1 ''chat_history''"
    "names st' ''messages'' = names st1 ''messages''"
    by blast
  then show ?thesis using e(2) list_of_cong by blast
qed

text \<open>
  The request for \<^verbatim>\<open>get_time\<close> after the recorded request: the history keeps the result
  of the recorded request and gains nothing.
\<close>

theorem unknown_function_leaves_history_witness:
  \<open>\<exists>e st'. exec_tool_calls loads_sample py_str ([recorded_tool_call] @ unknown_tool_call # [])
              loop_state = (Some e, st')
      \<and> list_of st' ''chat_history''
          = Some (messages @ [recorded_assistant_1,
              function_call_results_message ''call_A0GbXBeZGkAR1ooDoMKQCPcs''
                ''{'temperature': 25, 'condition': 'sunny'}''])\<close>
proof -
  have h2: "locals_at_dispatch after_recorded_call (function_name unknown_tool_call) = None"
    by (simp add: locals_at_dispatch_def after_recorded_call_names loop_state_names
          unknown_tool_call_def)
  from unknown_function_leaves_history [OF after_recorded_call_eq h2, of "[]"]
  obtain e st' where
    "exec_tool_calls loads_sample py_str ([recorded_tool_call] @ unknown_tool_call # [])
       loop_state = (Some e, st')"
    "list_of st' ''chat_history'' = list_of after_recorded_call ''chat_history''"
    by blast
  then show ?thesis unfolding after_recorded_call_history by blast
qed

subsection \<open>C6: the tool result message\<close>

text \<open>
  C6, as amended. The claim as stated gives the message exactly three keys; the loop
  writes four, \<^verbatim>\<open>"type": "function_call_output"\<close> being the one that is missing (see the
  counterexample below). What holds: whatever the outcome of the loop, the messages it has
  appended to the history are, in the order of the requests, one for each request whose
  call returned, each exactly
  \<^verbatim>\<open>{role: "tool", type: "function_call_output", tool_call_id, content}\<close>, where
  \<^verbatim>\<open>tool_call_id\<close> is the id of the request and content is \<^verbatim>\<open>str\<close> of the value that the
  callable bound to the requested name before the loop returns on the decoded mapping.
\<close>

theorem tool_result_message_shape:
  assumes "names st ''chat_history'' = Some (ListRef a)"
      and "exec_tool_calls loads str tcs st = (r, st')"
  shows "\<exists>rs. length rs \<le> length tcs
           \<and> list_of st' ''chat_history'' = Some (heap st a @ loop_messages str tcs rs)
           \<and> length (loop_messages str tcs rs) = length rs
           \<and> (\<forall>i<length rs.
                 loop_messages str tcs rs ! i =
                   PDict [(''role'', PStr ''tool''),
                          (''type'', PStr ''function_call_output''),
                          (''tool_call_id'', PStr (tool_id (tcs ! i))),
                          (''content'', PStr (str (rs ! i)))]
               \<and> (\<exists>f kwargs. names st (function_name (tcs ! i)) = Some (Callable f)
                     \<and> loads (function_arguments (tcs ! i)) = Some (PDict kwargs)
                     \<and> f kwargs = Inr (rs ! i)))"
proof -
  from exec_tool_calls_char [OF assms] obtain rs where
    rs: "length rs \<le> length tcs"
      "heap st' = (heap st)(a := heap st a @ loop_messages str tcs rs)"
      "\<forall>i<length rs. call_result loads (names st) (tcs ! i) = Inr (rs ! i)"
      "names st' ''chat_history'' = Some (ListRef a)"
    by blast
  have h: "list_of st' ''chat_history'' = Some (heap st a @ loop_messages str tcs rs)"
    using rs(2,4) by (simp add: list_of_def)
  have len: "length (loop_messages str tcs rs) = length rs" using rs(1) by simp
  have each: "\<forall>i<length rs.
                 loop_messages str tcs rs ! i =
                   PDict [(''role'', PStr ''tool''),
                          (''type'', PStr ''function_call_output''),
                          (''tool_call_id'', PStr (tool_id (tcs ! i))),
                          (''content'', PStr (str (rs ! i)))]
               \<and> (\<exists>f kwargs. names st (function_name (tcs ! i)) = Some (Callable f)
                     \<and> loads (function_arguments (tcs ! i)) = Some (PDict kwargs)
                     \<and> f kwargs = Inr (rs ! i))"
  proof (intro allI impI conjI)
    fix i assume i: "i < length rs"
    show "loop_messages str tcs rs ! i =
            PDict [(''role'', PStr ''tool''),
                   (''type'', PStr ''function_call_output''),
                   (''tool_call_id'', PStr (tool_id (tcs ! i))),
                   (''content'', PStr (str (rs ! i)))]"
      using loop_messages_nth [OF i rs(1)] by (simp add: function_call_results_message_def)
    from rs(3) i have "call_result loads (names st) (tcs ! i) = Inr (rs ! i)" by simp
    then show "\<exists>f kwargs. names st (function_name (tcs ! i)) = Some (Callable f)
                     \<and> loads (function_arguments (tcs ! i)) = Some (PDict kwargs)
                     \<and> f kwargs = Inr (rs ! i)"
      unfolding call_result_Inr_iff .
  qed
  from rs(1) h len each show ?thesis by blast
qed

text \<open>
  The loop over the recorded request and the request for \<^verbatim>\<open>get_time\<close>: it ends with
  KeyError, and the one message it has appended has the four keys.
\<close>

theorem tool_result_message_shape_witness:
  "\<exists>rs. length rs \<le> length [recorded_tool_call, unknown_tool_call]
      \<and> list_of (snd (exec_tool_calls loads_sample py_str
                        [recorded_tool_call, unknown_tool_call] loop_state)) ''chat_history''
          = Some (heap loop_state 0
                  @ loop_messages py_str [recorded_tool_call, unknown_tool_call] rs)
      \<and> length (loop_messages py_str [recorded_tool_call, unknown_tool_call] rs) = length rs
      \<and> (\<forall>i<length rs.
            loop_messages py_str [recorded_tool_call, unknown_tool_call] rs ! i =
              PDict [(''role'', PStr ''tool''),
                     (''type'', PStr ''function_call_output''),
                     (''tool_call_id'', PStr (tool_id ([recorded_tool_call, unknown_tool_call] ! i))),
                     (''content'', PStr (py_str (rs ! i)))]
          \<and> (\<exists>f kwargs.
                names loop_state (function_name ([recorded_tool_call, unknown_tool_call] ! i))
                  = Some (Callable f)
              \<and> loads_sample (function_arguments ([recorded_tool_call, unknown_tool_call] ! i))
                  = Some (PDict kwargs)
              \<and> f kwargs = Inr (rs ! i)))"
proof -
  have h2: "exec_tool_calls loads_sample py_str [recorded_tool_call, unknown_tool_call] loop_state
      = (fst (exec_tool_calls loads_sample py_str [recorded_tool_call, unknown_tool_call] loop_state),
         snd (exec_tool_calls loads_sample py_str [recorded_tool_call, unknown_tool_call] loop_state))"
    by (rule prod.collapse [symmetric])
  from tool_result_message_shape [OF loop_state_history(1) h2] show ?thesis .
qed

text \<open>
  C6 as stated fails: the message appended for the recorded request has the key
  \<^verbatim>\<open>type\<close> besides the three keys of the claim.
\<close>

theorem tool_result_message_counterexample:
  \<open>list_of (snd (exec_tool_calls loads_sample py_str [recorded_tool_call] loop_state))
       ''chat_history''
     = Some (messages @ [recorded_assistant_1,
         PDict [(''role'', PStr ''tool''),
                (''type'', PStr ''function_call_output''),
                (''tool_call_id'', PStr ''call_A0GbXBeZGkAR1ooDoMKQCPcs''),
                (''content'', PStr ''{'temperature': 25, 'condition': 'sunny'}'')]])
   \<and> keys (PDict [(''role'', PStr ''tool''),
                (''type'', PStr ''function_call_output''),
                (''tool_call_id'', PStr ''call_A0GbXBeZGkAR1ooDoMKQCPcs''),
                (''content'', PStr ''{'temperature': 25, 'condition': 'sunny'}'')])
       = [''role'', ''type'', ''tool_call_id'', ''content'']
   \<and> [''role'', ''type'', ''tool_call_id'', ''content''] \<noteq> [''role'', ''tool_call_id'', ''content'']\<close>
proof -
  have "list_of after_recorded_call ''chat_history''
     = Some (messages @ [recorded_assistant_1,
         PDict [(''role'', PStr ''tool''),
                (''type'', PStr ''function_call_output''),
                (''tool_call_id'', PStr ''call_A0GbXBeZGkAR1ooDoMKQCPcs''),
                (''content'', PStr (py_str (get_weather (PStr ''Sydney''))))]])"
    unfolding after_recorded_call_history py_str_get_weather
    by (simp add: function_call_results_message_def)
  then show ?thesis
    unfolding after_recorded_call_def py_str_get_weather by simp
qed

subsection \<open>C7: the history only grows\<close>

text \<open>
  C7. Every operation of the round trip only appends to the history. Where
  \<^verbatim>\<open>chat_history\<close> refers to a list, \<^verbatim>\<open>chat_history.append(m)\<close> (recording the model's
  tool-call message, the final answer, a new user turn) leaves the list as it was,
  followed by \<open>m\<close>, and an iteration of the loop (recording a tool result) leaves a list
  of which the list before is a prefix. Over the round trip as a whole, started where
  \<^verbatim>\<open>messages\<close> is a list: from the first statement on, the history read after any \<open>j\<close>
  statements is a prefix of the history read after any \<open>k \<ge> j\<close> statements, whether a
  statement raised or not; earlier elements keep their places.
\<close>

theorem history_append_only:
  "(names st ''chat_history'' = Some (ListRef a) \<longrightarrow>
      list_of (snd (list_append ''chat_history'' m st)) ''chat_history'' = Some (heap st a @ [m])
      \<and> (\<exists>h. list_of (snd (exec_tool loads str tool st)) ''chat_history'' = Some h
             \<and> prefix (heap st a) h))
   \<and> (names st ''messages'' = Some (ListRef a) \<longrightarrow>
       (\<forall>j k. 1 \<le> j \<and> j \<le> k \<longrightarrow>
          (\<exists>h h'.
             list_of (snd (run_steps (take j (round_trip_cells loads str a1 tool_calls a2)) st))
               ''chat_history'' = Some h
           \<and> list_of (snd (run_steps (take k (round_trip_cells loads str a1 tool_calls a2)) st))
               ''chat_history'' = Some h'
           \<and> prefix h h')))"
proof (intro conjI impI allI)
  assume "names st ''chat_history'' = Some (ListRef a)"
  then show "list_of (snd (list_append ''chat_history'' m st)) ''chat_history'' = Some (heap st a @ [m])"
    by (simp add: list_append_def list_of_def)
next
  assume ch: "names st ''chat_history'' = Some (ListRef a)"
  have "names (snd (exec_tool loads str tool st)) ''chat_history'' = Some (ListRef a)"
    using keeps_exec_tool [of loads str tool] ch by (simp add: keeps_history_name_def)
  moreover have "prefix (heap st a) (heap (snd (exec_tool loads str tool st)) a)"
    using appends_only_exec_tool [of loads str tool] by (simp add: appends_only_def)
  ultimately show "\<exists>h. list_of (snd (exec_tool loads str tool st)) ''chat_history'' = Some h
             \<and> prefix (heap st a) h"
    by (simp add: list_of_def)
next
  fix j k :: nat
  let ?S = "\<lambda>k. snd (run_steps (take k (round_trip_cells loads str a1 tool_calls a2)) st)"
  assume m: "names st ''messages'' = Some (ListRef a)" and jk: "1 \<le> j \<and> j \<le> k"
  then have "names (?S j) ''chat_history'' = Some (ListRef a)"
    and "names (?S k) ''chat_history'' = Some (ListRef a)"
    by (simp_all add: history_name_bound)
  moreover have "prefix (heap (?S j) a) (heap (?S k) a)"
    using jk by (intro run_steps_take_mono [OF appends_only_round_trip_cells]) simp
  ultimately show "\<exists>h h'. list_of (?S j) ''chat_history'' = Some h
           \<and> list_of (?S k) ''chat_history'' = Some h' \<and> prefix h h'"
    by (simp add: list_of_def)
qed

text \<open>
  In the recorded run: appending the final answer where the loop starts, and the
  history after the first and after the last statement of the round trip.
\<close>

theorem history_append_only_witness:
  "list_of (snd (list_append ''chat_history'' recorded_assistant_2 loop_state)) ''chat_history''
     = Some (messages @ [recorded_assistant_1, recorded_assistant_2])
   \<and> (\<exists>h h'.
        list_of (snd (run_steps (take 1 (round_trip_cells loads_sample py_str recorded_assistant_1
                   (Some [recorded_tool_call]) recorded_assistant_2)) setup_state))
          ''chat_history'' = Some h
      \<and> list_of (snd (run_steps (take 9 (round_trip_cells loads_sample py_str recorded_assistant_1
                   (Some [recorded_tool_call]) recorded_assistant_2)) setup_state))
          ''chat_history'' = Some h'
      \<and> prefix h h')"
proof -
  have h0: "heap loop_state 0 = messages @ [recorded_assistant_1]"
    by (simp add: loop_state_heap)
  have jk: "(1::nat) \<le> 1 \<and> (1::nat) \<le> 9" by simp
  from history_append_only [of loop_state 0 recorded_assistant_2 loads_sample py_str recorded_tool_call]
  have "list_of (snd (list_append ''chat_history'' recorded_assistant_2 loop_state)) ''chat_history''
          = Some (heap loop_state 0 @ [recorded_assistant_2])"
    using loop_state_history(1) by blast
  moreover
  from history_append_only [of setup_state 0 _ loads_sample py_str _ recorded_assistant_1
      "Some [recorded_tool_call]" recorded_assistant_2]
  have "\<exists>h h'.
        list_of (snd (run_steps (take 1 (round_trip_cells loads_sample py_str recorded_assistant_1
                   (Some [recorded_tool_call]) recorded_assistant_2)) setup_state))
          ''chat_history'' = Some h
      \<and> list_of (snd (run_steps (take 9 (round_trip_cells loads_sample py_str recorded_assistant_1
                   (Some [recorded_tool_call]) recorded_assistant_2)) setup_state))
          ''chat_history'' = Some h'
      \<and> prefix h h'"
    using setup_state_messages jk by blast
  ultimately show ?thesis unfolding h0 by simp
qed

subsection \<open>C8: the shape of the messages\<close>

text \<open>
  C8, as amended. The claim as stated gives every message a content that is text or
  null. The constructor \<^verbatim>\<open>message(role, content)\<close> wraps its argument: the content of the
  message it returns is the one-element list \<^verbatim>\<open>[{"type": "text", "text": content}]\<close>,
  neither text nor null (see the counterexample below). What holds: a message built by
  \<^verbatim>\<open>message(role, content)\<close> has exactly the keys \<^verbatim>\<open>role\<close> and \<^verbatim>\<open>content\<close>, its role is the
  given role and its content is a list holding one text part whose text is the given
  content. At the end of every run of the notebook the history is a list, and each of its
  messages is one the notebook built itself, with the keys \<^verbatim>\<open>role\<close> and \<^verbatim>\<open>content\<close>, role
  \<^verbatim>\<open>developer\<close> or \<^verbatim>\<open>user\<close> and one text part as content, or a tool result with role
  \<^verbatim>\<open>tool\<close> and text as content (and the keys \<^verbatim>\<open>type\<close> and \<^verbatim>\<open>tool_call_id\<close>), or one of the
  two assistant messages, appended as they were decoded from the model's responses.
\<close>

theorem history_message_shapes:
  "(\<exists>h. list_of (snd (notebook loads str a1 tool_calls a2 st0)) ''chat_history'' = Some h
       \<and> (\<forall>m\<in>set h. m = a1 \<or> m = a2 \<or> prompt_shape m \<or> tool_result_shape m))
   \<and> keys (message role content) = [''role'', ''content'']
   \<and> get (message role content) ''role'' = Some role
   \<and> (\<exists>c. get (message role content) ''content'' = Some c \<and> text_part_of c = Some content)"
proof -
  obtain r st' where run: "notebook loads str a1 tool_calls a2 st0 = (r, st')" by fastforce
  define tcs where "tcs = (case tool_calls of None \<Rightarrow> [] | Some ts \<Rightarrow> ts)"
  from notebook_char [OF run tcs_def] obtain rs where
    n: "names st' ''chat_history'' = Some (ListRef (next_addr st0))"
    and h: "heap st' (next_addr st0) = messages @ a1 # loop_messages str tcs rs
                                   @ (if r = None then [a2, follow_up] else [])"
    by blast
  have "\<forall>m\<in>set (heap st' (next_addr st0)).
          m = a1 \<or> m = a2 \<or> prompt_shape m \<or> tool_result_shape m"
  proof
    fix m assume "m \<in> set (heap st' (next_addr st0))"
    then have "m \<in> set messages \<or> m = a1 \<or> m \<in> set (loop_messages str tcs rs)
                 \<or> m = a2 \<or> m = follow_up"
      unfolding h by (cases "r = None") auto
    then show "m = a1 \<or> m = a2 \<or> prompt_shape m \<or> tool_result_shape m"
      using prompt_shape_messages prompt_shape_follow_up
        tool_result_shape_loop_messages [of str tcs rs] by blast
  qed
  with n have "\<exists>h. list_of st' ''chat_history'' = Some h
       \<and> (\<forall>m\<in>set h. m = a1 \<or> m = a2 \<or> prompt_shape m \<or> tool_result_shape m)"
    by (simp add: list_of_def)
  then show ?thesis using run by (simp add: message_def)
qed

text \<open>
  The recorded run ends with a history of six messages, each of one of these kinds.
\<close>

theorem history_message_shapes_witness:
  "\<exists>h. list_of (snd recorded_run) ''chat_history'' = Some h \<and> length h = 6
      \<and> (\<forall>m\<in>set h. m = recorded_assistant_1 \<or> m = recorded_assistant_2
                    \<or> prompt_shape m \<or> tool_result_shape m)"
proof -
  from history_message_shapes [of loads_sample py_str recorded_assistant_1
      "Some [recorded_tool_call]" recorded_assistant_2 empty_state]
  obtain h where
    h: "list_of (snd recorded_run) ''chat_history'' = Some h"
       "\<forall>m\<in>set h. m = recorded_assistant_1 \<or> m = recorded_assistant_2
                    \<or> prompt_shape m \<or> tool_result_shape m"
    unfolding recorded_run_def by blast
  from h(1) have "length h = 6"
    unfolding recorded_run_history by (auto simp: messages_def)
  with h show ?thesis by blast
qed

text \<open>
  C8 as stated fails: the user message of the notebook's prompt, built by \<^verbatim>\<open>message\<close>,
  has a list as content.
\<close>

theorem message_content_counterexample:
  "messages ! 1 = message (PStr ''user'') (PStr ''How is the weather in Sydney today?'')
   \<and> get (message (PStr ''user'') (PStr ''How is the weather in Sydney today?'')) ''content''
       = Some (PList [PDict [(''type'', PStr ''text''),
                             (''text'', PStr ''How is the weather in Sydney today?'')]])
   \<and> \<not> text_or_null (PList [PDict [(''type'', PStr ''text''),
                                    (''text'', PStr ''How is the weather in Sydney today?'')]])"
  by (simp add: messages_def message_def)

subsection \<open>C9: the weather stub\<close>

text \<open>
  C9: for every location, \<^verbatim>\<open>get_weather(location)\<close> returns the constant
  \<^verbatim>\<open>{"temperature": 25, "condition": "sunny"}\<close>; two calls with any two locations return
  equal results, also when the function is called the way the loop calls it, with the
  keyword mapping \<^verbatim>\<open>{"location": ...}\<close>.
\<close>

theorem get_weather_constant:
  "get_weather location = PDict [(''temperature'', PInt 25), (''condition'', PStr ''sunny'')]
   \<and> get_weather location = get_weather location'
   \<and> call_kw (def1 ''location'' get_weather) (PDict [(''location'', location)])
       = call_kw (def1 ''location'' get_weather) (PDict [(''location'', location')])"
  by (simp add: get_weather_def call_kw_def def1_def bind1_def)

subsection \<open>C10: \<^verbatim>\<open>chat_history\<close> and \<^verbatim>\<open>messages\<close> are one list\<close>

text \<open>
  C10. \<^verbatim>\<open>chat_history = messages\<close> binds a second name to the list object and copies
  nothing. At the end of every run of the notebook, whatever its outcome, both names
  refer to the same object, the sequence read through \<^verbatim>\<open>messages\<close> is the sequence read
  through \<^verbatim>\<open>chat_history\<close>, and it is no longer the list literal of the prompt: the
  model's message and what followed it were appended to it. Where both names refer to
  one list, an append through \<^verbatim>\<open>chat_history\<close> is seen through \<^verbatim>\<open>messages\<close>.
\<close>

theorem chat_history_aliases_messages:
  "names (snd (notebook loads str a1 tool_calls a2 st0)) ''chat_history''
      = names (snd (notebook loads str a1 tool_calls a2 st0)) ''messages''
   \<and> list_of (snd (notebook loads str a1 tool_calls a2 st0)) ''messages''
      = list_of (snd (notebook loads str a1 tool_calls a2 st0)) ''chat_history''
   \<and> (\<exists>tail. list_of (snd (notebook loads str a1 tool_calls a2 st0)) ''messages''
              = Some (messages @ a1 # tail))
   \<and> (names st ''chat_history'' = Some (ListRef a) \<and> names st ''messages'' = Some (ListRef a) \<longrightarrow>
        list_of (snd (list_append ''chat_history'' m st)) ''messages'' = Some (heap st a @ [m]))"
proof -
  obtain r st' where run: "notebook loads str a1 tool_calls a2 st0 = (r, st')" by fastforce
  define tcs where "tcs = (case tool_calls of None \<Rightarrow> [] | Some ts \<Rightarrow> ts)"
  from notebook_char [OF run tcs_def] obtain rs where
    n: "names st' ''messages'' = Some (ListRef (next_addr st0))"
       "names st' ''chat_history'' = Some (ListRef (next_addr st0))"
    and h: "heap st' (next_addr st0) = messages @ a1 # loop_messages str tcs rs
                                   @ (if r = None then [a2, follow_up] else [])"
    by blast
  from h have "\<exists>tail. heap st' (next_addr st0) = messages @ a1 # tail" by blast
  with n have "names st' ''chat_history'' = names st' ''messages''"
    "list_of st' ''messages'' = list_of st' ''chat_history''"
    "\<exists>tail. list_of st' ''messages'' = Some (messages @ a1 # tail)"
    by (simp_all add: list_of_def)
  moreover have "names st ''chat_history'' = Some (ListRef a) \<and> names st ''messages'' = Some (ListRef a) \<longrightarrow>
        list_of (snd (list_append ''chat_history'' m st)) ''messages'' = Some (heap st a @ [m])"
    by (simp add: list_append_def list_of_def)
  ultimately show ?thesis using run by simp
qed

text \<open>
  The recorded run: \<^verbatim>\<open>messages\<close>, two elements long when it was built, is the history
  of six messages at the end; and an append through \<^verbatim>\<open>chat_history\<close> where the loop
  starts is read through \<^verbatim>\<open>messages\<close>.
\<close>

theorem chat_history_aliases_messages_witness:
  \<open>names (snd recorded_run) ''chat_history'' = names (snd recorded_run) ''messages''
   \<and> list_of (snd recorded_run) ''messages''
       = Some (messages @ [recorded_assistant_1,
          function_call_results_message ''call_A0GbXBeZGkAR1ooDoMKQCPcs''
            ''{'temperature': 25, 'condition': 'sunny'}'',
          recorded_assistant_2, follow_up])
   \<and> list_of (snd (list_append ''chat_history'' recorded_assistant_2 loop_state)) ''messages''
       = Some (messages @ [recorded_assistant_1, recorded_assistant_2])\<close>
proof -
  have h0: "heap loop_state 0 = messages @ [recorded_assistant_1]"
    by (simp add: loop_state_heap)
  note t = chat_history_aliases_messages [of loads_sample py_str recorded_assistant_1
      "Some [recorded_tool_call]" recorded_assistant_2 empty_state loop_state 0
      recorded_assistant_2, folded recorded_run_def]
  from t have a: "names (snd recorded_run) ''chat_history'' = names (snd recorded_run) ''messages''"
    and b: "list_of (snd recorded_run) ''messages'' = list_of (snd recorded_run) ''chat_history''"
    by blast+
  from t loop_state_history(1,2)
  have c: "list_of (snd (list_append ''chat_history'' recorded_assistant_2 loop_state)) ''messages''
             = Some (heap loop_state 0 @ [recorded_assistant_2])"
    by blast
  show ?thesis
    using a b c unfolding recorded_run_history h0 by simp
qed

end
